theory Spec2Isabelle
  imports Complex_Main
begin

section \<open>Numeric helpers (numpy on exact reals)\<close>

text \<open>
  Python floats and numpy arrays are modelled as exact reals and lists of reals.
  \<open>np_mean\<close> is \<open>np.mean\<close>, \<open>np_std\<close> is \<open>np.std\<close> (population standard deviation),
  \<open>np_diff\<close> is \<open>np.diff\<close> on numbers and \<open>np_diff_bool\<close> is \<open>np.diff\<close> on a boolean
  array, which numpy computes as "consecutive elements differ".
\<close>

definition np_mean :: "real list \<Rightarrow> real" where
  "np_mean xs = sum_list xs / real (length xs)"

definition np_std :: "real list \<Rightarrow> real" where
  "np_std xs = sqrt (np_mean (map (\<lambda>x. (x - np_mean xs)\<^sup>2) xs))"

fun np_diff :: "real list \<Rightarrow> real list" where
  "np_diff (x # y # ys) = (y - x) # np_diff (y # ys)"
| "np_diff _ = []"

fun np_diff_bool :: "bool list \<Rightarrow> bool list" where
  "np_diff_bool (x # y # ys) = (x \<noteq> y) # np_diff_bool (y # ys)"
| "np_diff_bool _ = []"

definition np_signbit :: "real \<Rightarrow> bool" where
  "np_signbit x = (x < 0)"

section \<open>Performance score (virtual\_listener.py)\<close>

text \<open>
  The two dictionaries read by \<open>_calculate_performance_score\<close>. A nested dictionary that
  \<open>generate_analysis\<close> may leave out is an option; \<open>None\<close> reads as the \<open>.get\<close> default.
  Counts produced by \<open>len\<close> are naturals.
\<close>

record vibrato_summary =
  vs_detected :: bool
  average_rate :: real
  average_depth :: real
  vs_consistency :: real

record score_inputs =
  confidence_avg :: real
  variety_score :: "nat option"
  vibrato_analysis :: "vibrato_summary option"
  dynamic_variety :: "nat option"
  breath_support_score :: "real option"
  detected_transitions :: "nat option"

record score_breakdown =
  pitch_accuracy :: real
  technique_variety :: real
  vibrato_quality :: real
  dynamics_control :: real
  breath_support :: real
  passaggio_handling :: real

record performance_score =
  total_score :: real
  grade :: string
  breakdown :: score_breakdown

definition get_default :: "'a option \<Rightarrow> 'a \<Rightarrow> 'a" where
  "get_default v d = (case v of None \<Rightarrow> d | Some x \<Rightarrow> x)"

definition score_components :: "score_inputs \<Rightarrow> score_breakdown" where
  "score_components s =
     (let pitch_score = min (confidence_avg s * 25) 25;
          technique_score = min (real (get_default (variety_score s) 0) * 5) 20;
          vibrato_score =
            (case vibrato_analysis s of
               None \<Rightarrow> 5
             | Some v \<Rightarrow>
                 if vs_detected v then
                   let rate_score = max 0 (10 - \<bar>average_rate v - 5.5\<bar> * 2);
                       depth_score = max 0 (5 - \<bar>average_depth v - 50\<bar> * 0.1)
                   in rate_score + depth_score + vs_consistency v * 5
                 else 5);
          dynamics_score = min (real (get_default (dynamic_variety s) 0) * 5) 15;
          breath_score = (get_default (breath_support_score s) 70 - 70) * 0.5;
          passaggio_score = min (real (get_default (detected_transitions s) 0) * 5) 10
      in \<lparr>pitch_accuracy = pitch_score,
          technique_variety = technique_score,
          vibrato_quality = min vibrato_score 15,
          dynamics_control = dynamics_score,
          breath_support = max 0 (min breath_score 15),
          passaggio_handling = passaggio_score\<rparr>)"

definition sum_components :: "score_breakdown \<Rightarrow> real" where
  "sum_components c = pitch_accuracy c + technique_variety c + vibrato_quality c
                      + dynamics_control c + breath_support c + passaggio_handling c"

definition grade_of :: "real \<Rightarrow> string" where
  "grade_of tot = (if tot \<ge> 90 then ''S'' else if tot \<ge> 80 then ''A''
                   else if tot \<ge> 70 then ''B'' else if tot \<ge> 60 then ''C'' else ''D'')"

text \<open>Python's \<open>round(x, 1)\<close> read on exact reals: nearest tenth, ties to the even tenth.\<close>

definition py_round1 :: "real \<Rightarrow> real" where
  "py_round1 x =
     (let y = x * 10; f = \<lfloor>y\<rfloor>; r = y - of_int f
      in of_int (if r < 1/2 then f else if r > 1/2 then f + 1
                 else if even f then f else f + 1) / 10)"

definition calculate_performance_score :: "score_inputs \<Rightarrow> performance_score" where
  "calculate_performance_score s =
     (let c = score_components s; tot = sum_components c
      in \<lparr>total_score = py_round1 tot, grade = grade_of tot, breakdown = c\<rparr>)"

text \<open>Rank of a letter grade, for comparing grades: S is the best.\<close>

definition grade_rank :: "string \<Rightarrow> nat" where
  "grade_rank g = (if g = ''S'' then 4 else if g = ''A'' then 3 else if g = ''B'' then 2
                   else if g = ''C'' then 1 else 0)"

section \<open>Pitch engines and fusion (virtual\_listener.py)\<close>

datatype py_error = RequestError | JSONDecodeError | IndexError | ValueError | TypeError
  | InterfaceError

text \<open>
  What \<open>requests.post\<close> gives back: it raises (timeout, refused connection), or it returns
  a response with a status code whose \<open>.json()\<close> either raises or yields the body. In the
  body a missing key reads as the empty list.
\<close>

record engine_body =
  pitches :: "real list"
  confidences :: "real list"
  body_notes :: "string list"

datatype engine_reply = Raised | Reply nat "engine_body option"

record estimate =
  frequency :: real
  confidence :: real
  est_notes :: "string list"
  source :: string

definition min_confidence :: real where
  "min_confidence = 0.6"

definition pick :: "'a list \<Rightarrow> nat list \<Rightarrow> py_error + 'a list" where
  "pick xs idx = (if \<forall>i \<in> set idx. i < length xs then Inr (map (\<lambda>i. xs ! i) idx)
                  else Inl IndexError)"

text \<open>The body of the \<open>try\<close> block of \<open>_analyze_with_crepe\<close>; \<open>Inl\<close> is a raised exception.\<close>

definition crepe_try :: "engine_reply \<Rightarrow> py_error + estimate option" where
  "crepe_try reply =
     (case reply of
        Raised \<Rightarrow> Inl RequestError
      | Reply status body \<Rightarrow>
          if status = 200 then
            (case body of
               None \<Rightarrow> Inl JSONDecodeError
             | Some result \<Rightarrow>
                 if pitches result \<noteq> [] \<and> confidences result \<noteq> [] then
                   let valid_indices = filter (\<lambda>i. confidences result ! i > min_confidence)
                                              [0 ..< length (confidences result)]
                   in if valid_indices \<noteq> [] then
                        (case pick (pitches result) valid_indices of
                           Inl e \<Rightarrow> Inl e
                         | Inr valid_pitches \<Rightarrow>
                             let valid_confidences = map (\<lambda>i. confidences result ! i) valid_indices
                             in Inr (Some \<lparr>frequency = np_mean valid_pitches,
                                          confidence = np_mean valid_confidences,
                                          est_notes = [], source = ''CREPE''\<rparr>))
                      else Inr None
                 else Inr None)
          else Inr None)"

definition analyze_with_crepe :: "engine_reply \<Rightarrow> estimate option" where
  "analyze_with_crepe reply = (case crepe_try reply of Inl e \<Rightarrow> None | Inr r \<Rightarrow> r)"

definition spice_try :: "engine_reply \<Rightarrow> py_error + estimate option" where
  "spice_try reply =
     (case reply of
        Raised \<Rightarrow> Inl RequestError
      | Reply status body \<Rightarrow>
          if status = 200 then
            (case body of
               None \<Rightarrow> Inl JSONDecodeError
             | Some result \<Rightarrow>
                 if pitches result \<noteq> [] \<and> confidences result \<noteq> [] then
                   let valid_indices = filter (\<lambda>i. confidences result ! i > min_confidence)
                                              [0 ..< length (confidences result)]
                   in if valid_indices \<noteq> [] then
                        (case pick (pitches result) valid_indices of
                           Inl e \<Rightarrow> Inl e
                         | Inr valid_pitches \<Rightarrow>
                             let valid_confidences = map (\<lambda>i. confidences result ! i) valid_indices
                             in (case (if body_notes result \<noteq> [] then pick (body_notes result) valid_indices
                                       else Inr []) of
                                   Inl e \<Rightarrow> Inl e
                                 | Inr valid_notes \<Rightarrow>
                                     Inr (Some \<lparr>frequency = np_mean valid_pitches,
                                               confidence = np_mean valid_confidences,
                                               est_notes = valid_notes, source = ''SPICE''\<rparr>)))
                      else Inr None
                 else Inr None)
          else Inr None)"

definition analyze_with_spice :: "engine_reply \<Rightarrow> estimate option" where
  "analyze_with_spice reply = (case spice_try reply of Inl e \<Rightarrow> None | Inr r \<Rightarrow> r)"

subsection \<open>Note names\<close>

definition note_names :: "string list" where
  "note_names = [''C'', ''C#'', ''D'', ''D#'', ''E'', ''F'', ''F#'', ''G'', ''G#'', ''A'', ''A#'', ''B'']"

fun show_nat :: "nat \<Rightarrow> string" where
  "show_nat n = (if n < 10 then [''0123456789'' ! n]
                 else show_nat (n div 10) @ [''0123456789'' ! (n mod 10)])"

declare show_nat.simps [simp del]

definition show_int :: "int \<Rightarrow> string" where
  "show_int i = (if i < 0 then CHR ''-'' # show_nat (nat (- i)) else show_nat (nat i))"

text \<open>
  \<open>freq_to_note\<close>: \<open>//\<close> and \<open>%\<close> on floats are floor division and its remainder, and \<open>int\<close>
  of the remainder (which lies in [0,12)) is its floor.
\<close>

definition freq_to_note :: "real \<Rightarrow> string" where
  "freq_to_note freq =
     (if freq \<le> 0 then ''C4''
      else
        let halfsteps = 12 * log 2 (freq / 440);
            halfsteps_from_c0 = halfsteps + 57;
            octave = \<lfloor>halfsteps_from_c0 / 12\<rfloor>;
            note_idx = \<lfloor>halfsteps_from_c0 - 12 * of_int \<lfloor>halfsteps_from_c0 / 12\<rfloor>\<rfloor>
        in note_names ! nat note_idx @ show_int octave)"

record formant_dict =
  fd_f1 :: real
  fd_f2 :: real
  fd_singers_formant :: real

definition classify_technique :: "real \<Rightarrow> formant_dict option \<Rightarrow> string" where
  "classify_technique freq formant_data =
     (if freq \<le> 0 then ''unknown''
      else
        let basic_technique = (if freq < 200 then ''chest'' else if freq < 400 then ''mixed''
                               else ''head'');
            by_formant =
              (case formant_data of
                 None \<Rightarrow> None
               | Some fd \<Rightarrow>
                   if fd_f1 fd > 600 \<and> fd_singers_formant fd > 0.6 then Some ''belt''
                   else if fd_f1 fd < 400 \<and> fd_f2 fd > 2000 then Some ''head''
                   else if 400 \<le> fd_f1 fd \<and> fd_f1 fd \<le> 600 \<and> fd_singers_formant fd > 0.3
                     then Some ''mixed''
                   else if fd_f1 fd > 600 \<and> fd_singers_formant fd < 0.3 then Some ''chest''
                   else None)
        in (case by_formant of
              Some t \<Rightarrow> t
            | None \<Rightarrow> if 350 \<le> freq \<and> freq \<le> 450 then ''passaggio'' else basic_technique))"

subsection \<open>Session state and the temporal detectors\<close>

record pitch_point =
  pp_time :: real
  pp_frequency :: real
  pp_confidence :: real

record amp_point =
  ap_time :: real
  ap_amplitude :: real
  ap_rms :: real

record vibrato_info =
  vi_detected :: bool
  vi_rate :: real
  vi_depth :: real
  vi_consistency :: "real option"

record dynamics_info =
  dy_level :: string
  dy_change :: string
  dy_trend :: string
  dy_amplitude :: "real option"
  dy_variation :: "real option"

record label =
  l_time :: real
  l_frequency :: real
  l_note :: string
  l_confidence :: real
  l_technique :: string
  l_vibrato :: vibrato_info
  l_dynamics :: dynamics_info
  l_amplitude :: real
  l_source :: string

record listener =
  labels :: "label list"
  pitch_history :: "pitch_point list"
  amplitude_history :: "amp_point list"
  breath_positions :: "real list"

definition vibrato_window :: nat where
  "vibrato_window = 10"

text \<open>Python's \<open>xs[-n:]\<close>: the last n elements, or all of them when there are fewer.\<close>

definition last_n :: "nat \<Rightarrow> 'a list \<Rightarrow> 'a list" where
  "last_n n xs = drop (length xs - n) xs"

text \<open>\<open>np.where(b)[0]\<close>: the indices at which the boolean array is true.\<close>

definition np_where :: "bool list \<Rightarrow> real list" where
  "np_where bs = map real (filter (\<lambda>i. bs ! i) [0 ..< length bs])"

definition no_vibrato :: vibrato_info where
  "no_vibrato = \<lparr>vi_detected = False, vi_rate = 0, vi_depth = 0, vi_consistency = None\<rparr>"

definition detect_vibrato_advanced :: "listener \<Rightarrow> vibrato_info" where
  "detect_vibrato_advanced s =
     (if length (pitch_history s) < vibrato_window then no_vibrato
      else
        let recent_pitches = map pp_frequency (last_n vibrato_window (pitch_history s));
            recent_times = map pp_time (last_n vibrato_window (pitch_history s))
        in if length recent_pitches < 5 then no_vibrato
           else
             let pitch_changes = np_diff recent_pitches;
                 time_changes = np_diff recent_times;
                 zero_crossings = np_where (np_diff_bool (map np_signbit pitch_changes))
             in if length zero_crossings > 2 then
                  let vibrato_period = np_mean (np_diff zero_crossings) * np_mean time_changes;
                      vibrato_rate = (if vibrato_period > 0 then 1 / (2 * vibrato_period) else 0);
                      pitch_std = np_std recent_pitches;
                      base_pitch = np_mean recent_pitches;
                      vibrato_depth = (if base_pitch > 0
                                       then 1200 * log 2 ((base_pitch + pitch_std) / base_pitch)
                                       else 0);
                      is_vibrato = (4 \<le> vibrato_rate \<and> vibrato_rate \<le> 7
                                    \<and> 10 \<le> vibrato_depth \<and> vibrato_depth \<le> 100);
                      mad = np_mean (map abs pitch_changes)
                  in \<lparr>vi_detected = is_vibrato, vi_rate = vibrato_rate, vi_depth = vibrato_depth,
                      vi_consistency = Some (if mad > 0 then 1 - np_std pitch_changes / mad
                                             else 0)\<rparr>
                else no_vibrato)"

definition analyze_dynamics :: "listener \<Rightarrow> real \<Rightarrow> dynamics_info" where
  "analyze_dynamics s current_amplitude =
     (if length (amplitude_history s) < 5 then
        \<lparr>dy_level = ''medium'', dy_change = ''stable'', dy_trend = ''neutral'',
         dy_amplitude = None, dy_variation = None\<rparr>
      else
        let recent_amps = map ap_amplitude (last_n 5 (amplitude_history s));
            level = (if current_amplitude > 0.7 then ''forte''
                     else if current_amplitude > 0.4 then ''medium''
                     else if current_amplitude > 0.1 then ''piano'' else ''pianissimo'');
            change_rate = (last recent_amps - hd recent_amps) / real (length recent_amps);
            change = (if change_rate > 0.05 then ''crescendo''
                      else if change_rate < - 0.05 then ''diminuendo'' else ''stable'');
            trend = (if change_rate > 0.05 then ''rising''
                     else if change_rate < - 0.05 then ''falling'' else ''neutral'')
        in \<lparr>dy_level = level, dy_change = change, dy_trend = trend,
            dy_amplitude = Some current_amplitude, dy_variation = Some (np_std recent_amps)\<rparr>)"

definition create_combined_label ::
  "listener \<Rightarrow> estimate option \<Rightarrow> estimate option \<Rightarrow> real \<Rightarrow> real \<Rightarrow> label option" where
  "create_combined_label s crepe_result spice_result time_offset amplitude =
     (if crepe_result = None \<and> spice_result = None then None
      else
        let (freq, conf, src) =
              (case (crepe_result, spice_result) of
                 (Some c, Some p) \<Rightarrow>
                   ((frequency c * confidence c + frequency p * confidence p)
                      / (confidence c + confidence p),
                    (confidence c + confidence p) / 2,
                    ''CREPE+SPICE'')
               | (Some c, None) \<Rightarrow> (frequency c, confidence c, ''CREPE'')
               | (None, Some p) \<Rightarrow> (frequency p, confidence p, ''SPICE'')
               | (None, None) \<Rightarrow> (0, 0, [])
              )
        in Some \<lparr>l_time = time_offset, l_frequency = freq, l_note = freq_to_note freq,
                 l_confidence = conf, l_technique = classify_technique freq None,
                 l_vibrato = detect_vibrato_advanced s,
                 l_dynamics = analyze_dynamics s amplitude,
                 l_amplitude = amplitude, l_source = src\<rparr>)"

text \<open>
  \<open>analyze_chunk\<close> for one frame: the chunk's samples, its time offset and the two engine
  replies. \<open>np.max\<close> of an empty array raises. Step 4 of the source (the professional
  analysis) sits in its own \<open>try/except\<close> and only appends to two lists that nothing below
  reads, so the state kept here is the four lists of steps 3, 5 and 6.
\<close>

definition analyze_chunk ::
  "listener \<Rightarrow> real list \<Rightarrow> real \<Rightarrow> engine_reply \<Rightarrow> engine_reply \<Rightarrow> py_error + listener" where
  "analyze_chunk s audio_chunk time_offset crepe_reply spice_reply =
     (let crepe_result = analyze_with_crepe crepe_reply;
          spice_result = analyze_with_spice spice_reply
      in if audio_chunk = [] then Inl ValueError
         else
           let amplitude = Max (set (map abs audio_chunk));
               s1 = s\<lparr>amplitude_history := amplitude_history s @
                        [\<lparr>ap_time = time_offset, ap_amplitude = amplitude,
                          ap_rms = sqrt (np_mean (map (\<lambda>x. x\<^sup>2) audio_chunk))\<rparr>]\<rparr>;
               s2 = (case create_combined_label s1 crepe_result spice_result time_offset amplitude of
                       None \<Rightarrow> s1
                     | Some combined_label \<Rightarrow>
                         let s1' = s1\<lparr>labels := labels s1 @ [combined_label]\<rparr>
                         in if l_frequency combined_label > 0 then
                              s1'\<lparr>pitch_history := pitch_history s1' @
                                    [\<lparr>pp_time = time_offset,
                                      pp_frequency = l_frequency combined_label,
                                      pp_confidence = l_confidence combined_label\<rparr>]\<rparr>
                            else s1');
               s3 = (if amplitude < 0.01 \<and> length (amplitude_history s2) > 5
                        \<and> list_all (\<lambda>amp. amp < 0.02)
                                     (map ap_amplitude (last_n 5 (amplitude_history s2)))
                     then s2\<lparr>breath_positions := breath_positions s2 @ [time_offset]\<rparr>
                     else s2)
           in Inr s3)"

definition new_listener :: listener where
  "new_listener = \<lparr>labels = [], pitch_history = [], amplitude_history = [],
                    breath_positions = []\<rparr>"

text \<open>
  The loop of \<open>listen_and_analyze\<close>: one frame per second of audio, \<open>time_offset\<close> counting
  the frames from 0, until the stream ends or \<open>duration\<close> is reached. A frame is its chunk
  and the replies the two engines give for it.
\<close>

fun listen_loop ::
  "nat \<Rightarrow> nat \<Rightarrow> (real list \<times> engine_reply \<times> engine_reply) list \<Rightarrow> listener
     \<Rightarrow> py_error + listener" where
  "listen_loop duration time_offset [] s = Inr s"
| "listen_loop duration time_offset ((chunk, r1, r2) # rest) s =
     (if time_offset \<ge> duration then Inr s
      else (case analyze_chunk s chunk (real time_offset) r1 r2 of
              Inl e \<Rightarrow> Inl e
            | Inr s' \<Rightarrow> listen_loop duration (Suc time_offset) rest s'))"

text \<open>The peak amplitude of a chunk, \<open>np.max(np.abs(audio_chunk))\<close>.\<close>

definition peak :: "real list \<Rightarrow> real" where
  "peak audio_chunk = Max (set (map abs audio_chunk))"

text \<open>
  The condition under which frame \<open>i\<close> of a session with peak amplitudes \<open>amps\<close> is a breath
  position: the test of step 6 of \<open>analyze_chunk\<close>, read on the whole amplitude sequence.
\<close>

definition breath_at :: "real list \<Rightarrow> nat \<Rightarrow> bool" where
  "breath_at amps i = (amps ! i < 0.01 \<and> 5 \<le> i \<and> list_all (\<lambda>j. amps ! (i - j) < 0.02) [0 ..< 5])"

section \<open>Register, vowel and vocal health (professional\_vocal\_analyzer.py)\<close>

datatype VocalRegister = VOCAL_FRY | CHEST | MIX | HEAD | FALSETTO | WHISTLE | UNKNOWN

datatype VowelShape = A_OPEN | A_FRONT | E_OPEN | E_CLOSE | I_VOWEL | O_OPEN | O_CLOSE | U_VOWEL
  | SCHWA | MIXED

record FormantProfile =
  f1 :: real
  f2 :: real
  f3 :: real
  f4 :: real
  singers_formant :: real
  formant_bandwidth :: "real list option"

text \<open>
  \<open>np.abs(np.fft.rfft(x))\<close> at bin \<open>k\<close>, the modulus of the discrete Fourier transform, and
  \<open>np.fft.rfftfreq(n, 1/44100)\<close> at bin \<open>k\<close>; the bins are \<open>0 .. n div 2\<close>.
\<close>

definition rfft_mag :: "real list \<Rightarrow> nat \<Rightarrow> real" where
  "rfft_mag xs k =
     cmod (\<Sum>n < length xs. of_real (xs ! n) * cis (- 2 * pi * real k * real n / real (length xs)))"

definition rfftfreq :: "nat \<Rightarrow> nat \<Rightarrow> real" where
  "rfftfreq n k = real k * 44100 / real n"

text \<open>
  \<open>_calculate_spectral_centroid\<close>: \<open>np.fft.rfft\<close> raises on an empty array, and the
  \<open>except\<close> falls through to the default 1000, as a zero spectrum does.
\<close>

definition calculate_spectral_centroid :: "real list \<Rightarrow> real" where
  "calculate_spectral_centroid audio_chunk =
     (if audio_chunk = [] then 1000
      else
        let bins = [0 ..< length audio_chunk div 2 + 1];
            magnitude = map (rfft_mag audio_chunk) bins;
            freqs = map (rfftfreq (length audio_chunk)) bins
        in if sum_list magnitude > 0
           then sum_list (map (\<lambda>(f, m). f * m) (zip freqs magnitude)) / sum_list magnitude
           else 1000)"

definition classify_register_advanced ::
  "real \<Rightarrow> FormantProfile \<Rightarrow> real list \<Rightarrow> VocalRegister" where
  "classify_register_advanced freq formants audio_chunk =
     (if freq \<le> 0 then UNKNOWN
      else if freq < 80 then VOCAL_FRY
      else if freq < 200 then CHEST
      else if 200 \<le> freq \<and> freq < 350 then
        (if f1 formants > 600 \<and> singers_formant formants > 0.3 then CHEST else MIX)
      else if 350 \<le> freq \<and> freq < 700 then
        (if f1 formants > 500 \<and> f2 formants < 1800 then MIX
         else if f1 formants < 400 \<and> f2 formants > 2000 then HEAD
         else MIX)
      else if 700 \<le> freq \<and> freq < 1400 then
        (if calculate_spectral_centroid audio_chunk > 2000 then HEAD else FALSETTO)
      else if freq \<ge> 2000 then WHISTLE
      else HEAD)"

text \<open>The table of \<open>_initialize_vowel_formants\<close>, in the order the dictionary is written.\<close>

definition vowel_formants :: "(VowelShape \<times> real \<times> real) list" where
  "vowel_formants =
     [(A_OPEN, 850, 1220), (A_FRONT, 750, 1700), (E_OPEN, 610, 1900), (E_CLOSE, 390, 2300),
      (I_VOWEL, 310, 2790), (O_OPEN, 500, 1000), (O_CLOSE, 360, 750), (U_VOWEL, 320, 800),
      (SCHWA, 500, 1500)]"

text \<open>
  The loop of \<open>_classify_vowel_shape\<close>: the running minimum starts at infinity (\<open>None\<close>) with
  SCHWA as the best vowel, and an entry replaces it only when strictly closer.
\<close>

fun vowel_scan ::
  "FormantProfile \<Rightarrow> (VowelShape \<times> real \<times> real) list \<Rightarrow> real option \<times> VowelShape
     \<Rightarrow> real option \<times> VowelShape" where
  "vowel_scan formants [] acc = acc"
| "vowel_scan formants ((vowel, f1_ref, f2_ref) # rest) (min_distance, best_vowel) =
     (let distance = sqrt ((f1 formants - f1_ref)\<^sup>2 + (f2 formants - f2_ref)\<^sup>2)
      in vowel_scan formants rest
           (case min_distance of
              None \<Rightarrow> (Some distance, vowel)
            | Some m \<Rightarrow> if distance < m then (Some distance, vowel)
                        else (min_distance, best_vowel)))"

definition classify_vowel_shape :: "FormantProfile \<Rightarrow> VowelShape" where
  "classify_vowel_shape formants =
     (case vowel_scan formants vowel_formants (None, SCHWA) of
        (None, best_vowel) \<Rightarrow> MIXED
      | (Some min_distance, best_vowel) \<Rightarrow> if min_distance > 400 then MIXED else best_vowel)"

text \<open>
  The pitch dictionary handed to the assessors; \<open>pd_confidence\<close> is \<open>None\<close> when the key is
  missing, which \<open>.get('confidence', 0)\<close> reads as 0.
\<close>

record pitch_data =
  pd_frequency :: real
  pd_confidence :: "real option"
  pd_note :: string
  pd_octave :: int
  pd_cents_deviation :: real
  pd_harmonic_clarity :: real

record VocalHealthIndicator =
  vocal_strain :: real
  breath_efficiency :: real
  tension_areas :: "string list"
  sustainability :: real
  risk_level :: string

text \<open>
  \<open>np.correlate(x, x, mode='full')\<close> cut at its middle: entry \<open>k\<close> is the autocorrelation
  at lag \<open>k\<close>, for \<open>k\<close> from 0 to \<open>len(x) - 1\<close>.
\<close>

definition autocorr :: "real list \<Rightarrow> nat \<Rightarrow> real" where
  "autocorr xs k = (\<Sum>n < length xs - k. xs ! n * xs ! (n + k))"

text \<open>
  The \<open>try\<close> block of \<open>_calculate_hnr\<close>. \<open>np.correlate\<close> raises on an empty array and
  \<open>np.max\<close> on the empty slice \<open>autocorr[1:]\<close> of a one-sample chunk. \<open>Inr None\<close> is
  falling out of the block without a \<open>return\<close>. For a ratio that is not positive numpy's
  \<open>log10\<close> gives nan or -inf, which \<open>max(0, min(., 25))\<close> turns into 0.
\<close>

definition hnr_try :: "real list \<Rightarrow> py_error + real option" where
  "hnr_try audio_chunk =
     (if length audio_chunk < 2 then Inl ValueError
      else
        let max_autocorr = Max (set (map (autocorr audio_chunk) [1 ..< length audio_chunk]));
            total_energy = autocorr audio_chunk 0
        in if total_energy > 0 then
             let hnr_linear = max_autocorr / total_energy
             in if hnr_linear < 1 then
                  (if hnr_linear \<le> 0 then Inr (Some 0)
                   else Inr (Some (max 0 (min (10 * log 10 (hnr_linear / (1 - hnr_linear))) 25))))
                else Inr (Some (max 0 (min 20 25)))
           else Inr None)"

definition calculate_hnr :: "real list \<Rightarrow> real" where
  "calculate_hnr audio_chunk =
     (case hnr_try audio_chunk of Inl e \<Rightarrow> 10 | Inr None \<Rightarrow> 10 | Inr (Some h) \<Rightarrow> h)"

definition assess_vocal_health ::
  "real list \<Rightarrow> pitch_data \<Rightarrow> FormantProfile \<Rightarrow> VocalHealthIndicator" where
  "assess_vocal_health audio_chunk pd formants =
     (let hnr = calculate_hnr audio_chunk;
          strain = max 0 (1 - hnr / 15);
          energy = np_mean (map (\<lambda>x. x\<^sup>2) audio_chunk);
          pitch_confidence = get_default (pd_confidence pd) 0;
          efficiency = pitch_confidence * min (energy * 10) 1;
          areas = (if f1 formants < 300 then [''larynx_high''] else [])
                  @ (if f2 formants > 2500 \<or> f2 formants < 1000 then [''tongue_tension''] else [])
                  @ (if \<bar>f2 formants - f1 formants\<bar> < 800 then [''jaw_tension''] else []);
          sustain = min (efficiency * 2) 1;
          risk = (if strain < 0.3 \<and> length areas = 0 then ''low''
                  else if strain < 0.6 \<and> length areas \<le> 2 then ''moderate''
                  else ''high'')
      in \<lparr>vocal_strain = strain, breath_efficiency = efficiency, tension_areas = areas,
          sustainability = sustain, risk_level = risk\<rparr>)"

section \<open>Vibrato analysis (professional\_vocal\_analyzer.py)\<close>

record VibratoAnalysis =
  detected :: bool
  rate :: real
  extent :: real
  regularity :: real
  onset_timing :: real
  consistency :: real
  vtype :: string

text \<open>
  The \<open>if/elif\<close> chain of \<open>_analyze_vibrato_professional\<close> that names the vibrato type
  from the computed rate and extent.
\<close>

definition vibrato_type :: "real \<Rightarrow> real \<Rightarrow> string" where
  "vibrato_type vibrato_rate vibrato_extent =
     (if 4 \<le> vibrato_rate \<and> vibrato_rate \<le> 7 \<and> 20 \<le> vibrato_extent \<and> vibrato_extent \<le> 100
        then ''natural''
      else if vibrato_rate > 8 then ''tremolo''
      else if vibrato_rate < 3 then ''wobble''
      else ''irregular'')"

text \<open>
  \<open>np.argmax\<close>: the index of the first occurrence of the maximum.
\<close>

definition np_argmax :: "real list \<Rightarrow> nat" where
  "np_argmax xs = length (takeWhile (\<lambda>x. x \<noteq> Max (set xs)) xs)"

text \<open>
  \<open>_estimate_pitch_autocorr\<close>; the caller leaves \<open>sample_rate\<close> at its default 44100.
  The window is centred on its mean, and the autocorrelation is searched for its first
  maximum over the lags from \<open>min_period\<close> up to \<open>max_period\<close>. A window of at most
  \<open>max_period\<close> samples falls through to \<open>return 0\<close>, and so does everything the bare
  \<open>except\<close> catches: \<open>np.correlate\<close> on an empty window, and \<open>np.argmax\<close> on an empty
  segment (there \<open>np_argmax\<close> is 0 and \<open>min_period\<close> is 0, so the model returns 0 too).
\<close>

definition estimate_pitch_autocorr :: "real list \<Rightarrow> nat \<Rightarrow> real" where
  "estimate_pitch_autocorr chunk sample_rate =
     (let centred = map (\<lambda>x. x - np_mean chunk) chunk;
          min_period = sample_rate div 800;
          max_period = sample_rate div 80
      in if length centred > max_period then
           let autocorr_segment = map (autocorr centred) [min_period ..< max_period];
               peak_idx = np_argmax autocorr_segment + min_period
           in if peak_idx > 0 then real sample_rate / real peak_idx else 0
         else 0)"

text \<open>
  \<open>range(0, stop, step)\<close> for a positive \<open>step\<close>: the multiples of \<open>step\<close> below \<open>stop\<close>.
\<close>

definition py_range :: "nat \<Rightarrow> nat \<Rightarrow> nat list" where
  "py_range stop step = map (\<lambda>j. j * step) [0 ..< (stop + step - 1) div step]"

text \<open>
  The \<open>for\<close> loop of \<open>_analyze_vibrato_professional\<close>: the chunk is cut into windows of a
  tenth of its length, starting at every multiple of \<open>window_size\<close> below
  \<open>len(audio_chunk) - window_size\<close>, and the positive estimates are collected in order.
\<close>

definition pitch_variations :: "real list \<Rightarrow> real list" where
  "pitch_variations audio_chunk =
     (let window_size = length audio_chunk div 10
      in filter (\<lambda>pitch_estimate. pitch_estimate > 0)
           (map (\<lambda>i. estimate_pitch_autocorr (take window_size (drop i audio_chunk)) 44100)
                (py_range (length audio_chunk - window_size) window_size)))"

text \<open>
  The \<open>try\<close> block of \<open>_analyze_vibrato_professional\<close>. \<open>range\<close> raises \<open>ValueError\<close> on
  a step of 0; no other statement of the block raises on real numbers.
\<close>

definition vibrato_try :: "real list \<Rightarrow> py_error + VibratoAnalysis" where
  "vibrato_try audio_chunk =
     (if length audio_chunk div 10 = 0 then Inl ValueError
      else if length (pitch_variations audio_chunk) < 5 then
        Inr \<lparr>detected = False, rate = 0, extent = 0, regularity = 0, onset_timing = 0,
             consistency = 0, vtype = ''insufficient_data''\<rparr>
      else
        let mean_pitch = np_mean (pitch_variations audio_chunk);
            pitch_std = np_std (pitch_variations audio_chunk);
            variation_rate = (if mean_pitch > 0 then pitch_std / mean_pitch else 0);
            pitch_diff = np_diff (pitch_variations audio_chunk);
            zero_crossings = length (filter id (np_diff_bool (map np_signbit pitch_diff)));
            is_vibrato = (0.01 < variation_rate \<and> variation_rate < 0.1
                          \<and> zero_crossings \<ge> 4 \<and> pitch_std > 2)
        in if is_vibrato then
             let vibrato_rate = real zero_crossings / 2;
                 vibrato_extent = (if mean_pitch > 0
                                   then 1200 * log 2 ((mean_pitch + pitch_std) / mean_pitch) else 0);
                 mad = np_mean (map abs pitch_diff);
                 reg = (if mad > 0 then 1 - np_std pitch_diff / mad else 0)
             in Inr \<lparr>detected = True, rate = vibrato_rate, extent = vibrato_extent,
                     regularity = reg, onset_timing = 0.5, consistency = reg,
                     vtype = vibrato_type vibrato_rate vibrato_extent\<rparr>
           else
             Inr \<lparr>detected = False, rate = 0, extent = variation_rate * 100, regularity = 0,
                  onset_timing = 0, consistency = 0, vtype = ''straight_tone''\<rparr>)"

text \<open>
  \<open>_analyze_vibrato_professional\<close>: the early return for a chunk of fewer than 1024
  samples, the \<open>try\<close> block, and the \<open>except\<close> branch. The parameter \<open>frequency\<close> of the
  source is never read and is left out.
\<close>

definition analyze_vibrato_professional :: "real list \<Rightarrow> VibratoAnalysis" where
  "analyze_vibrato_professional audio_chunk =
     (if length audio_chunk < 1024 then
        \<lparr>detected = False, rate = 0, extent = 0, regularity = 0, onset_timing = 0,
         consistency = 0, vtype = ''none''\<rparr>
      else
        case vibrato_try audio_chunk of
          Inr v \<Rightarrow> v
        | Inl e \<Rightarrow> \<lparr>detected = False, rate = 0, extent = 0, regularity = 0, onset_timing = 0,
                     consistency = 0, vtype = ''analysis_error''\<rparr>)"

text \<open>
  A test signal for the vibrato analysis. A window of 552 samples carries four impulses,
  +1 at the samples 0 and \<open>p\<close> and -1 at the samples 300 and 301: its mean is 0 and, for
  a period \<open>p\<close> from 55 to 149, its autocorrelation over the lags 55 to 550 is 1 at lag
  \<open>p\<close> and at most 0 elsewhere, so its pitch estimate is 44100 / p. A chunk is ten such
  windows followed by one more sample, 5521 samples in all, which the analysis cuts back
  into these ten windows.
\<close>

definition pulse :: "nat \<Rightarrow> nat \<Rightarrow> real" where
  "pulse p n = (if n = 0 \<or> n = p then 1 else if n = 300 \<or> n = 301 then - 1 else 0)"

definition pulse_window :: "nat \<Rightarrow> real list" where
  "pulse_window p = map (pulse p) [0 ..< 552]"

definition pulse_chunk :: "nat list \<Rightarrow> real list" where
  "pulse_chunk ps = concat (map pulse_window ps) @ [0]"

section \<open>Label database (label\_database.py)\<close>

text \<open>
  Python values as they occur in label dictionaries and in rows read back from SQLite.
\<close>

datatype pyval = PNone | PBool bool | PInt int | PFloat real | PStr string
  | PList "pyval list" | PDict "(string \<times> pyval) list"

type_synonym pydict = "(string \<times> pyval) list"

text \<open>\<open>d.get(k, default)\<close> on a dictionary kept as an association list.\<close>

definition dict_get :: "pydict \<Rightarrow> string \<Rightarrow> pyval \<Rightarrow> pyval" where
  "dict_get d k dflt = (case map_of d k of None \<Rightarrow> dflt | Some v \<Rightarrow> v)"

text \<open>\<open>d[k] = v\<close> for a key the dictionary already has.\<close>

definition dict_set :: "pydict \<Rightarrow> string \<Rightarrow> pyval \<Rightarrow> pydict" where
  "dict_set d k v = map (\<lambda>(k', v'). if k' = k then (k', v) else (k', v')) d"

fun py_truthy :: "pyval \<Rightarrow> bool" where
  "py_truthy PNone = False"
| "py_truthy (PBool b) = b"
| "py_truthy (PInt n) = (n \<noteq> 0)"
| "py_truthy (PFloat r) = (r \<noteq> 0)"
| "py_truthy (PStr s) = (s \<noteq> [])"
| "py_truthy (PList xs) = (xs \<noteq> [])"
| "py_truthy (PDict kvs) = (kvs \<noteq> [])"

text \<open>
  Python's \<open>==\<close> on the scalar values of a row: numbers compare by value across \<open>bool\<close>,
  \<open>int\<close> and \<open>float\<close>, everything else compares with its own kind.
\<close>

fun py_num :: "pyval \<Rightarrow> real option" where
  "py_num (PBool b) = Some (if b then 1 else 0)"
| "py_num (PInt n) = Some (of_int n)"
| "py_num (PFloat r) = Some r"
| "py_num _ = None"

definition py_eq :: "pyval \<Rightarrow> pyval \<Rightarrow> bool" where
  "py_eq a b = (case (py_num a, py_num b) of
                  (Some x, Some y) \<Rightarrow> x = y
                | (None, None) \<Rightarrow> a = b
                | _ \<Rightarrow> False)"

subsection \<open>SQLite as the module uses it\<close>

text \<open>
  The declared type of a column gives it an affinity. On insertion SQLite converts a value
  towards the affinity of its column: a number stored in a TEXT column becomes its text, a
  text stored in an INTEGER or REAL column becomes a number when it is a well-formed numeric
  literal, an integer stored in a REAL column becomes a float and an integral float stored
  in an INTEGER column becomes an integer. Which texts are numeric literals and how a number
  is written as text belong to SQLite; they are the two fields of \<open>sqlite_conv\<close>.
\<close>

datatype affinity = INTEGER | REAL | TEXT

record sqlite_conv =
  text_to_num :: "string \<Rightarrow> pyval option"
  num_to_text :: "pyval \<Rightarrow> string"

text \<open>What the \<open>sqlite3\<close> module accepts as a parameter, and how it hands it to SQLite.\<close>

fun bindable :: "pyval \<Rightarrow> bool" where
  "bindable (PList xs) = False"
| "bindable (PDict kvs) = False"
| "bindable v = True"

fun adapt :: "pyval \<Rightarrow> pyval" where
  "adapt (PBool b) = PInt (if b then 1 else 0)"
| "adapt v = v"

fun numeric_affinity :: "affinity \<Rightarrow> pyval \<Rightarrow> pyval" where
  "numeric_affinity REAL (PInt n) = PFloat (of_int n)"
| "numeric_affinity INTEGER (PFloat r) = (if r = of_int \<lfloor>r\<rfloor> then PInt \<lfloor>r\<rfloor> else PFloat r)"
| "numeric_affinity a v = v"

fun apply_affinity :: "sqlite_conv \<Rightarrow> affinity \<Rightarrow> pyval \<Rightarrow> pyval" where
  "apply_affinity conv TEXT (PInt n) = PStr (num_to_text conv (PInt n))"
| "apply_affinity conv TEXT (PFloat r) = PStr (num_to_text conv (PFloat r))"
| "apply_affinity conv TEXT v = v"
| "apply_affinity conv a (PStr s) =
     (case text_to_num conv s of None \<Rightarrow> PStr s | Some n \<Rightarrow> numeric_affinity a n)"
| "apply_affinity conv a v = numeric_affinity a v"

definition store_cell :: "sqlite_conv \<Rightarrow> string \<times> affinity \<times> pyval \<Rightarrow> string \<times> pyval" where
  "store_cell conv c = (case c of (name, a, v) \<Rightarrow> (name, apply_affinity conv a (adapt v)))"

text \<open>
  The database: the rows of \<open>vocal_labels\<close>, each a dictionary from column name to value
  in the order of the \<open>CREATE TABLE\<close>, and the AUTOINCREMENT counter of the table.
\<close>

record database =
  rows :: "pydict list"
  sequence :: int

definition row_id :: "pydict \<Rightarrow> int" where
  "row_id r = (case map_of r ''id'' of Some (PInt i) \<Rightarrow> i | _ \<Rightarrow> 0)"

text \<open>
  \<open>save_label\<close>. \<open>dumps\<close> is \<open>json.dumps\<close> and \<open>now\<close> the value of CURRENT\_TIMESTAMP at
  the insertion, read as a count of seconds. A list or dictionary bound as a parameter
  makes \<open>cursor.execute\<close> raise. The new id is one more than the largest id the table has
  ever held.
\<close>

definition save_label ::
  "sqlite_conv \<Rightarrow> (pyval \<Rightarrow> string) \<Rightarrow> int \<Rightarrow> database \<Rightarrow> pydict \<Rightarrow> py_error + database \<times> int" where
  "save_label conv dumps now db label_data =
     (let pitch_data = dumps (dict_get label_data ''pitch_data'' (PList []));
          note_sequence = dumps (dict_get label_data ''note_sequence'' (PList []));
          vibrato_analysis = dumps (dict_get label_data ''vibrato_analysis'' (PDict []));
          dynamics_data = dumps (dict_get label_data ''dynamics_data'' (PDict []));
          breath_analysis = dumps (dict_get label_data ''breath_analysis'' (PDict []));
          passaggio_analysis = dumps (dict_get label_data ''passaggio_analysis'' (PDict []));
          technique_analysis = dumps (dict_get label_data ''technique_analysis'' (PDict []));
          performance_score = dumps (dict_get label_data ''performance_score'' (PDict []));
          params =
            [(''youtube_url'', TEXT, dict_get label_data ''youtube_url'' (PStr [])),
             (''title'', TEXT, dict_get label_data ''title'' (PStr [])),
             (''artist'', TEXT, dict_get label_data ''artist'' (PStr [])),
             (''song_name'', TEXT, dict_get label_data ''song_name'' (PStr [])),
             (''duration_analyzed'', REAL, dict_get label_data ''duration_analyzed'' (PInt 30)),
             (''detected_notes'', INTEGER, dict_get label_data ''detected_notes'' (PInt 0)),
             (''average_pitch'', REAL, dict_get label_data ''average_pitch'' (PInt 0)),
             (''pitch_range'', TEXT, dict_get label_data ''pitch_range'' (PStr [])),
             (''main_technique'', TEXT, dict_get label_data ''main_technique'' (PStr [])),
             (''confidence_avg'', REAL, dict_get label_data ''confidence_avg'' (PInt 0)),
             (''pitch_data'', TEXT, PStr pitch_data),
             (''note_sequence'', TEXT, PStr note_sequence),
             (''vibrato_analysis'', TEXT, PStr vibrato_analysis),
             (''dynamics_data'', TEXT, PStr dynamics_data),
             (''breath_analysis'', TEXT, PStr breath_analysis),
             (''passaggio_analysis'', TEXT, PStr passaggio_analysis),
             (''technique_analysis'', TEXT, PStr technique_analysis),
             (''performance_score'', TEXT, PStr performance_score),
             (''category'', TEXT, dict_get label_data ''category'' (PStr [])),
             (''difficulty_level'', INTEGER, dict_get label_data ''difficulty_level'' (PInt 1)),
             (''genre'', TEXT, dict_get label_data ''genre'' (PStr [])),
             (''language'', TEXT, dict_get label_data ''language'' (PStr ''ko''))]
      in if list_all (\<lambda>c. bindable (snd (snd c))) params then
           let label_id = foldr max (map row_id (rows db)) (sequence db) + 1;
               cells = map (store_cell conv) params;
               row = [(''id'', PInt label_id)] @ take 5 cells @ [(''created_at'', PInt now)]
                     @ drop 5 cells @ [(''user_rating'', PNone), (''notes'', PNone)]
           in Inr (\<lparr>rows = rows db @ [row], sequence = label_id\<rparr>, label_id)
         else Inl InterfaceError)"

text \<open>
  \<open>_row_to_dict\<close>: four of the JSON columns are parsed when their cell is truthy; \<open>loads\<close>
  is \<open>json.loads\<close>, \<open>None\<close> when it raises on a text that is not JSON. The other four JSON
  columns are left as the row holds them.
\<close>

definition parse_json_field ::
  "(string \<Rightarrow> pyval option) \<Rightarrow> string \<Rightarrow> pydict \<Rightarrow> py_error + pydict" where
  "parse_json_field loads k data =
     (case map_of data k of
        None \<Rightarrow> Inr data
      | Some v \<Rightarrow>
          if py_truthy v then
            (case v of
               PStr s \<Rightarrow> (case loads s of
                            None \<Rightarrow> Inl JSONDecodeError
                          | Some parsed \<Rightarrow> Inr (dict_set data k parsed))
             | _ \<Rightarrow> Inl TypeError)
          else Inr data)"

definition and_then :: "py_error + 'a \<Rightarrow> ('a \<Rightarrow> py_error + 'b) \<Rightarrow> py_error + 'b" where
  "and_then r f = (case r of Inl e \<Rightarrow> Inl e | Inr x \<Rightarrow> f x)"

definition row_to_dict :: "(string \<Rightarrow> pyval option) \<Rightarrow> pydict \<Rightarrow> py_error + pydict" where
  "row_to_dict loads row =
     and_then (and_then (and_then (parse_json_field loads ''pitch_data'' row)
                                  (parse_json_field loads ''note_sequence''))
                        (parse_json_field loads ''vibrato_analysis''))
              (parse_json_field loads ''dynamics_data'')"

definition get_label ::
  "(string \<Rightarrow> pyval option) \<Rightarrow> database \<Rightarrow> int \<Rightarrow> py_error + pydict option" where
  "get_label loads db label_id =
     (case find (\<lambda>r. row_id r = label_id) (rows db) of
        None \<Rightarrow> Inr None
      | Some row \<Rightarrow> and_then (row_to_dict loads row) (\<lambda>d. Inr (Some d)))"




definition new_database :: database where
  "new_database = \<lparr>rows = [], sequence = 0\<rparr>"

text \<open>The columns that hold JSON text, by what \<open>_row_to_dict\<close> does with them.\<close>

definition parsed_columns :: "string list" where
  "parsed_columns = [''pitch_data'', ''note_sequence'', ''vibrato_analysis'', ''dynamics_data'']"

definition unparsed_columns :: "string list" where
  "unparsed_columns =
     [''breath_analysis'', ''passaggio_analysis'', ''technique_analysis'', ''performance_score'']"

text \<open>The value \<open>save_label\<close> serialises for a JSON column: the one given, or the default.\<close>

definition json_value :: "pydict \<Rightarrow> string \<Rightarrow> pyval" where
  "json_value label_data k =
     dict_get label_data k (if k = ''pitch_data'' \<or> k = ''note_sequence'' then PList [] else PDict [])"

text \<open>The types a session summary gives to its four scalar fields.\<close>

fun is_number :: "pyval \<Rightarrow> bool" where
  "is_number (PBool b) = True"
| "is_number (PInt n) = True"
| "is_number (PFloat r) = True"
| "is_number v = False"

fun is_text :: "pyval \<Rightarrow> bool" where
  "is_text (PStr s) = True"
| "is_text v = False"

fun is_plain_text :: "sqlite_conv \<Rightarrow> pyval \<Rightarrow> bool" where
  "is_plain_text conv (PStr s) = (text_to_num conv s = None)"
| "is_plain_text conv v = False"

section \<open>Theorems\<close>

subsection \<open>Vibrato type\<close>

lemma vibrato_type_cases:
  "(vibrato_type r d = ''natural'') = (4 \<le> r \<and> r \<le> 7 \<and> 20 \<le> d \<and> d \<le> 100)"
  "(vibrato_type r d = ''tremolo'') = (r > 8)"
  "(vibrato_type r d = ''wobble'') = (r < 3)"
  "(vibrato_type r d = ''irregular'') =
     (\<not> (4 \<le> r \<and> r \<le> 7 \<and> 20 \<le> d \<and> d \<le> 100) \<and> 3 \<le> r \<and> r \<le> 8)"
  by (auto simp add: vibrato_type_def)

lemma length_np_diff: "length (np_diff xs) = length xs - 1"
  by (induction xs rule: np_diff.induct) simp_all

lemma length_np_diff_bool: "length (np_diff_bool bs) = length bs - 1"
  by (induction bs rule: np_diff_bool.induct) simp_all

lemma zero_crossings_bound:
  "length (filter id (np_diff_bool (map np_signbit (np_diff xs)))) \<le> length xs - 2"
proof -
  have "length (filter id (np_diff_bool (map np_signbit (np_diff xs))))
        \<le> length (np_diff_bool (map np_signbit (np_diff xs)))"
    by (rule length_filter_le)
  also have "\<dots> = length xs - 2"
    by (simp add: length_np_diff_bool length_np_diff)
  finally show ?thesis .
qed

lemma pitch_variations_le_10:
  assumes "1024 \<le> length audio_chunk"
  shows "length (pitch_variations audio_chunk) \<le> 10"
proof -
  let ?L = "length audio_chunk"
  let ?w = "?L div 10"
  have w: "102 \<le> ?w" using assms by simp
  have "?L < 11 * ?w" using w by simp
  then have "?L - 1 < 11 * ?w" by simp
  then have d: "(?L - 1) div ?w < 11"
    by (rule less_mult_imp_div_less)
  have e: "?L - ?w + ?w - 1 = ?L - 1" using w by simp
  have "length (pitch_variations audio_chunk) \<le> length (py_range (?L - ?w) ?w)"
    unfolding pitch_variations_def Let_def
    using length_filter_le [of "\<lambda>pitch_estimate. pitch_estimate > 0"
        "map (\<lambda>i. estimate_pitch_autocorr (take ?w (drop i audio_chunk)) 44100)
             (py_range (?L - ?w) ?w)"]
    by simp
  also have "\<dots> = (?L - 1) div ?w"
    by (simp add: py_range_def e)
  finally show ?thesis using d by simp
qed

lemma detected_fields:
  assumes "detected (analyze_vibrato_professional c)"
  shows "1024 \<le> length c"
    and "4 \<le> length (filter id (np_diff_bool (map np_signbit (np_diff (pitch_variations c)))))"
    and "rate (analyze_vibrato_professional c)
         = real (length (filter id (np_diff_bool (map np_signbit (np_diff (pitch_variations c)))))) / 2"
    and "vtype (analyze_vibrato_professional c)
         = vibrato_type (rate (analyze_vibrato_professional c)) (extent (analyze_vibrato_professional c))"
  using assms
  by (simp_all add: analyze_vibrato_professional_def vibrato_try_def Let_def split: if_splits)

text \<open>
  C6: whenever \<open>_analyze_vibrato_professional\<close> reports a detected vibrato with rate r and
  extent d, the type is "natural" exactly when r is in [4,7] and d is in [20,100], "tremolo"
  exactly when r > 7, "wobble" exactly when r < 3, and "irregular" exactly in every other
  case. The chunk is cut into at most ten windows, so the estimates change direction at most
  eight times and the rate of a detected vibrato lies between 2 and 4: no detected vibrato
  has a rate above 7, and the tremolo branch of the source, which tests \<open>vibrato_rate > 8\<close>,
  is never taken.
\<close>

theorem vibrato_type_classification:
  assumes "detected (analyze_vibrato_professional audio_chunk)"
  shows "let v = analyze_vibrato_professional audio_chunk; r = rate v; d = extent v in
           (vtype v = ''natural'') = (4 \<le> r \<and> r \<le> 7 \<and> 20 \<le> d \<and> d \<le> 100)
         \<and> (vtype v = ''tremolo'') = (r > 7)
         \<and> (vtype v = ''wobble'') = (r < 3)
         \<and> (vtype v = ''irregular'') =
             (\<not> (4 \<le> r \<and> r \<le> 7 \<and> 20 \<le> d \<and> d \<le> 100) \<and> \<not> r > 7 \<and> \<not> r < 3)
         \<and> 2 \<le> r \<and> r \<le> 4"
proof -
  let ?v = "analyze_vibrato_professional audio_chunk"
  let ?zc = "length (filter id (np_diff_bool (map np_signbit (np_diff (pitch_variations audio_chunk)))))"
  note f = detected_fields [OF assms]
  have "length (pitch_variations audio_chunk) \<le> 10"
    using f(1) by (rule pitch_variations_le_10)
  then have "?zc \<le> 8"
    using zero_crossings_bound [of "pitch_variations audio_chunk"] by simp
  then have r: "2 \<le> rate ?v \<and> rate ?v \<le> 4"
    using f(2) f(3) by simp
  show ?thesis
    using r by (auto simp add: Let_def f(4) vibrato_type_cases)
qed


lemma sum_delta_mult:
  "finite S \<Longrightarrow> (\<Sum>n\<in>S. (if n = a then 1 else 0) * g n) = (if a \<in> S then (g a :: real) else 0)"
proof -
  assume fin: "finite S"
  have "(\<Sum>n\<in>S. (if n = a then 1 else 0) * g n) = (\<Sum>n\<in>S. if n = a then g n else 0)"
    by (rule sum.cong) simp_all
  also have "\<dots> = (if a \<in> S then g a else 0)"
    using fin by (simp add: sum.delta)
  finally show ?thesis .
qed

lemma pulse_alt:
  assumes "55 \<le> p" and "p < 150"
  shows "pulse p n = (if n = 0 then 1 else 0) + (if n = p then 1 else 0)
                     - (if n = 300 then 1 else 0) - (if n = 301 then 1 else 0)"
  using assms by (auto simp add: pulse_def)

lemma pulse_sum:
  assumes "55 \<le> p" and "p < 150"
  shows "(\<Sum>n<m. pulse p n * g n)
         = (if 0 < m then g 0 else 0) + (if p < m then g p else 0)
           - (if 300 < m then g 300 else 0) - (if 301 < m then (g 301 :: real) else 0)"
proof -
  have "(\<Sum>n<m. pulse p n * g n)
        = (\<Sum>n<m. (if n = 0 then 1 else 0) * g n) + (\<Sum>n<m. (if n = p then 1 else 0) * g n)
          - (\<Sum>n<m. (if n = 300 then 1 else 0) * g n) - (\<Sum>n<m. (if n = 301 then 1 else 0) * g n)"
    by (simp only: pulse_alt [OF assms] left_diff_distrib distrib_right sum.distrib sum_subtractf)
  also have "\<dots> = (if 0 < m then g 0 else 0) + (if p < m then g p else 0)
           - (if 300 < m then g 300 else 0) - (if 301 < m then g 301 else 0)"
    by (simp only: sum_delta_mult [OF finite_lessThan] lessThan_iff)
  finally show ?thesis .
qed

lemma length_pulse_window: "length (pulse_window p) = 552"
  by (simp add: pulse_window_def del: upt_rec_numeral)

lemma mean_pulse_window:
  assumes "55 \<le> p" and "p < 150"
  shows "np_mean (pulse_window p) = 0"
proof -
  have "sum_list (pulse_window p) = (\<Sum>n<552. pulse p n * 1)"
    by (simp add: pulse_window_def interv_sum_list_conv_sum_set_nat atLeast0LessThan
        del: upt_rec_numeral)
  also have "\<dots> = 0"
    using assms by (simp only: pulse_sum [OF assms]) simp
  finally show ?thesis by (simp add: np_mean_def)
qed

lemma autocorr_pulse_window:
  assumes "55 \<le> p" and "p < 150" and "55 \<le> k" and "k < 551"
  shows "autocorr (pulse_window p) k
         = (if k = p then 1
            else if k = 300 \<or> k = 301 \<or> p + k = 300 \<or> p + k = 301 then - 1 else 0)"
proof -
  have "autocorr (pulse_window p) k = (\<Sum>n<552 - k. pulse p n * pulse p (n + k))"
    unfolding autocorr_def length_pulse_window
    by (rule sum.cong) (simp_all add: pulse_window_def del: upt_rec_numeral)
  also have "\<dots> = (if 0 < 552 - k then pulse p (0 + k) else 0)
                  + (if p < 552 - k then pulse p (p + k) else 0)
                  - (if 300 < 552 - k then pulse p (300 + k) else 0)
                  - (if 301 < 552 - k then pulse p (301 + k) else 0)"
    by (rule pulse_sum [OF assms(1,2)])
  also have "\<dots> = (if k = p then 1
            else if k = 300 \<or> k = 301 \<or> p + k = 300 \<or> p + k = 301 then - 1 else 0)"
    using assms by (auto simp add: pulse_def)
  finally show ?thesis .
qed

lemma np_argmax_unique:
  assumes "j < length xs" and "\<forall>i < length xs. i \<noteq> j \<longrightarrow> xs ! i < xs ! j"
  shows "np_argmax xs = j"
proof -
  have m: "Max (set xs) = xs ! j"
  proof (rule Max_eqI)
    show "finite (set xs)" by simp
    show "xs ! j \<in> set xs" using assms(1) by simp
    fix y assume "y \<in> set xs"
    then obtain i where "i < length xs" and "xs ! i = y" by (auto simp add: in_set_conv_nth)
    then show "y \<le> xs ! j" using assms(2) by (cases "i = j") auto
  qed
  have "takeWhile (\<lambda>x. x \<noteq> xs ! j) xs = take j xs"
  proof (rule takeWhile_eq_take_P_nth)
    fix i assume "i < j" and "i < length xs"
    then show "xs ! i \<noteq> xs ! j" using assms(2) by fastforce
  next
    show "\<not> xs ! j \<noteq> xs ! j" by simp
  qed
  then show ?thesis using assms(1) by (simp add: np_argmax_def m)
qed

lemma estimate_pulse_window:
  assumes "55 \<le> p" and "p < 150"
  shows "estimate_pitch_autocorr (pulse_window p) 44100 = 44100 / real p"
proof -
  let ?seg = "map (autocorr (pulse_window p)) [55 ..< 551]"
  have c: "map (\<lambda>x. x - np_mean (pulse_window p)) (pulse_window p) = pulse_window p"
    by (simp add: mean_pulse_window [OF assms])
  have len: "length ?seg = 496" by (simp del: upt_rec_numeral)
  have j: "p - 55 < length ?seg" using assms unfolding len by simp
  have k: "p < 551" using assms(2) by simp
  have "?seg ! (p - 55) = autocorr (pulse_window p) p"
    using assms by (simp del: upt_rec_numeral)
  also have "\<dots> = 1"
    unfolding autocorr_pulse_window [OF assms assms(1) k] by (rule if_P) (rule refl)
  finally have pk: "?seg ! (p - 55) = 1" .
  have "\<forall>i < length ?seg. i \<noteq> p - 55 \<longrightarrow> ?seg ! i < ?seg ! (p - 55)"
  proof (intro allI impI)
    fix i assume i: "i < length ?seg" and n: "i \<noteq> p - 55"
    then have "55 + i \<noteq> p" using assms by auto
    moreover have "55 \<le> 55 + i" "55 + i < 551" using i by (simp_all del: upt_rec_numeral)
    ultimately have "autocorr (pulse_window p) (55 + i) \<le> 0"
      using assms by (simp add: autocorr_pulse_window)
    moreover have "?seg ! i = autocorr (pulse_window p) (55 + i)"
      using i by (simp del: upt_rec_numeral)
    ultimately show "?seg ! i < ?seg ! (p - 55)" by (simp only: pk)
  qed
  from np_argmax_unique [OF j this] have a: "np_argmax ?seg = p - 55" .
  have "(44100 :: nat) div 800 = 55" "(44100 :: nat) div 80 = 551" by simp_all
  then show ?thesis
    using assms
    by (simp add: estimate_pitch_autocorr_def Let_def c length_pulse_window a
        del: upt_rec_numeral)
qed

lemma concat_window:
  assumes "\<forall>b \<in> set bs. length b = n" and "j < length bs"
  shows "take n (drop (j * n) (concat bs @ t)) = bs ! j"
  using assms
proof (induction bs arbitrary: j)
  case Nil
  then show ?case by simp
next
  case (Cons b bs)
  show ?case
  proof (cases j)
    case 0
    then show ?thesis using Cons.prems by simp
  next
    case (Suc i)
    then show ?thesis using Cons by simp
  qed
qed

lemma pitch_variations_pulse_chunk:
  assumes "length ps = 10" and "\<forall>p \<in> set ps. 55 \<le> p \<and> p < 150"
  shows "pitch_variations (pulse_chunk ps) = map (\<lambda>p. 44100 / real p) ps"
proof -
  have l: "length (pulse_chunk ps) = 5521"
    using assms(1)
    by (simp add: pulse_chunk_def length_concat comp_def length_pulse_window sum_list_triv)
  have r: "py_range (5521 - 552) 552 = map (\<lambda>j. j * 552) [0 ..< 10]"
    by (simp add: py_range_def)
  have w: "\<And>j. j < 10 \<Longrightarrow>
      estimate_pitch_autocorr (take 552 (drop (j * 552) (pulse_chunk ps))) 44100
      = 44100 / real (ps ! j)"
  proof -
    fix j :: nat assume j: "j < 10"
    have "take 552 (drop (j * 552) (pulse_chunk ps)) = map pulse_window ps ! j"
      unfolding pulse_chunk_def
      by (rule concat_window) (use j assms(1) in \<open>simp_all add: length_pulse_window\<close>)
    then have "take 552 (drop (j * 552) (pulse_chunk ps)) = pulse_window (ps ! j)"
      using j assms(1) by simp
    moreover have "55 \<le> ps ! j \<and> ps ! j < 150" using assms j by simp
    ultimately show "estimate_pitch_autocorr (take 552 (drop (j * 552) (pulse_chunk ps))) 44100
      = 44100 / real (ps ! j)"
      by (simp add: estimate_pulse_window)
  qed
  have "map (\<lambda>i. estimate_pitch_autocorr (take 552 (drop i (pulse_chunk ps))) 44100)
          (map (\<lambda>j. j * 552) [0 ..< 10])
        = map (\<lambda>j. 44100 / real (ps ! j)) [0 ..< 10]"
    using w by (simp only: map_map comp_def) (rule map_cong, simp_all)
  also have "\<dots> = map (\<lambda>p. 44100 / real p) (map (nth ps) [0 ..< length ps])"
    using assms(1) by (simp add: comp_def)
  also have "\<dots> = map (\<lambda>p. 44100 / real p) ps"
    by (simp only: map_nth)
  finally have m: "map (\<lambda>i. estimate_pitch_autocorr (take 552 (drop i (pulse_chunk ps))) 44100)
          (py_range (5521 - 552) 552) = map (\<lambda>p. 44100 / real p) ps"
    by (simp only: r)
  have pos: "\<forall>x \<in> set (map (\<lambda>p. 44100 / real p) ps). x > 0"
    using assms(2) by auto
  have d: "(5521 :: nat) div 10 = 552" by simp
  show ?thesis
    unfolding pitch_variations_def Let_def l d
    by (simp only: m) (use pos in \<open>simp add: filter_id_conv\<close>)
qed

lemma length_pulse_chunk: "length ps = 10 \<Longrightarrow> length (pulse_chunk ps) = 5521"
  by (simp add: pulse_chunk_def length_concat comp_def length_pulse_window sum_list_triv)

lemma sqrt_demo: "sqrt (194481 / 484) = 441 / 22"
  by (rule real_sqrt_unique) (simp_all add: power2_eq_square)

lemma pv_natural:
  "pitch_variations (pulse_chunk [100, 110, 100, 110, 100, 110, 100, 110, 100, 110])
   = [441, 4410 / 11, 441, 4410 / 11, 441, 4410 / 11, 441, 4410 / 11, 441, 4410 / 11]"
  by (simp add: pitch_variations_pulse_chunk)

lemma pv_wobble:
  "pitch_variations (pulse_chunk [110, 100, 110, 100, 110, 110, 110, 100, 100, 100])
   = [4410 / 11, 441, 4410 / 11, 441, 4410 / 11, 4410 / 11, 4410 / 11, 441, 441, 441]"
  by (simp add: pitch_variations_pulse_chunk)

lemma pv_irregular:
  "pitch_variations (pulse_chunk [110, 100, 110, 100, 110, 100, 110, 110, 100, 100])
   = [4410 / 11, 441, 4410 / 11, 441, 4410 / 11, 441, 4410 / 11, 4410 / 11, 441, 441]"
  by (simp add: pitch_variations_pulse_chunk)

lemma std_natural:
  "np_std [441, 4410 / 11, 441, 4410 / 11, 441, 4410 / 11, 441, 4410 / 11, 441, 4410 / 11]
   = 441 / 22"
  by (simp add: np_std_def np_mean_def sqrt_demo)

lemma std_wobble:
  "np_std [4410 / 11, 441, 4410 / 11, 441, 4410 / 11, 4410 / 11, 4410 / 11, 441, 441, 441]
   = 441 / 22"
  by (simp add: np_std_def np_mean_def sqrt_demo)

lemma std_irregular:
  "np_std [4410 / 11, 441, 4410 / 11, 441, 4410 / 11, 441, 4410 / 11, 4410 / 11, 441, 441]
   = 441 / 22"
  by (simp add: np_std_def np_mean_def sqrt_demo)

lemma extent_demo: "20 \<le> 1200 * log 2 (22 / 21) \<and> 1200 * log 2 (22 / 21) \<le> (100 :: real)"
proof -
  have a: "60 * log 2 (22 / 21) = log 2 ((22 / 21) ^ 60)"
    by (simp add: log_nat_power)
  have "log 2 2 \<le> log 2 ((22 / 21 :: real) ^ 60)"
    by (subst log_le_cancel_iff) (simp_all add: power_divide)
  then have lo: "1 \<le> 60 * log 2 (22 / 21)" using a by simp
  have b: "12 * log 2 (22 / 21) = log 2 ((22 / 21) ^ 12)"
    by (simp add: log_nat_power)
  have "log 2 ((22 / 21 :: real) ^ 12) \<le> log 2 2"
    by (subst log_le_cancel_iff) (simp_all add: power_divide)
  then have hi: "12 * log 2 (22 / 21) \<le> 1" using b by simp
  show ?thesis using lo hi by simp
qed

lemma natural_demo:
  "detected (analyze_vibrato_professional
      (pulse_chunk [100, 110, 100, 110, 100, 110, 100, 110, 100, 110]))"
  "rate (analyze_vibrato_professional
      (pulse_chunk [100, 110, 100, 110, 100, 110, 100, 110, 100, 110])) = 4"
  "extent (analyze_vibrato_professional
      (pulse_chunk [100, 110, 100, 110, 100, 110, 100, 110, 100, 110])) = 1200 * log 2 (22 / 21)"
  by (simp_all add: analyze_vibrato_professional_def vibrato_try_def Let_def length_pulse_chunk
      pv_natural std_natural np_mean_def np_signbit_def)

lemma wobble_demo:
  "detected (analyze_vibrato_professional
      (pulse_chunk [110, 100, 110, 100, 110, 110, 110, 100, 100, 100]))"
  "rate (analyze_vibrato_professional
      (pulse_chunk [110, 100, 110, 100, 110, 110, 110, 100, 100, 100])) = 2"
  by (simp_all add: analyze_vibrato_professional_def vibrato_try_def Let_def length_pulse_chunk
      pv_wobble std_wobble np_mean_def np_signbit_def)

lemma irregular_demo:
  "detected (analyze_vibrato_professional
      (pulse_chunk [110, 100, 110, 100, 110, 100, 110, 110, 100, 100]))"
  "rate (analyze_vibrato_professional
      (pulse_chunk [110, 100, 110, 100, 110, 100, 110, 110, 100, 100])) = 3"
  by (simp_all add: analyze_vibrato_professional_def vibrato_try_def Let_def length_pulse_chunk
      pv_irregular std_irregular np_mean_def np_signbit_def)

theorem vibrato_type_classification_witness:
  "detected (analyze_vibrato_professional
      (pulse_chunk [100, 110, 100, 110, 100, 110, 100, 110, 100, 110]))
   \<and> rate (analyze_vibrato_professional
      (pulse_chunk [100, 110, 100, 110, 100, 110, 100, 110, 100, 110])) = 4
   \<and> vtype (analyze_vibrato_professional
      (pulse_chunk [100, 110, 100, 110, 100, 110, 100, 110, 100, 110])) = ''natural''
   \<and> detected (analyze_vibrato_professional
      (pulse_chunk [110, 100, 110, 100, 110, 110, 110, 100, 100, 100]))
   \<and> rate (analyze_vibrato_professional
      (pulse_chunk [110, 100, 110, 100, 110, 110, 110, 100, 100, 100])) = 2
   \<and> vtype (analyze_vibrato_professional
      (pulse_chunk [110, 100, 110, 100, 110, 110, 110, 100, 100, 100])) = ''wobble''
   \<and> detected (analyze_vibrato_professional
      (pulse_chunk [110, 100, 110, 100, 110, 100, 110, 110, 100, 100]))
   \<and> rate (analyze_vibrato_professional
      (pulse_chunk [110, 100, 110, 100, 110, 100, 110, 110, 100, 100])) = 3
   \<and> vtype (analyze_vibrato_professional
      (pulse_chunk [110, 100, 110, 100, 110, 100, 110, 110, 100, 100])) = ''irregular''"
proof -
  have n: "vtype (analyze_vibrato_professional
      (pulse_chunk [100, 110, 100, 110, 100, 110, 100, 110, 100, 110])) = ''natural''"
    using vibrato_type_classification [OF natural_demo(1)] extent_demo
    by (simp add: Let_def natural_demo(2,3))
  have w: "vtype (analyze_vibrato_professional
      (pulse_chunk [110, 100, 110, 100, 110, 110, 110, 100, 100, 100])) = ''wobble''"
    using vibrato_type_classification [OF wobble_demo(1)]
    by (simp add: Let_def wobble_demo(2))
  have i: "vtype (analyze_vibrato_professional
      (pulse_chunk [110, 100, 110, 100, 110, 100, 110, 110, 100, 100])) = ''irregular''"
    using vibrato_type_classification [OF irregular_demo(1)]
    by (simp add: Let_def irregular_demo(2))
  show ?thesis
    using n w i natural_demo(1,2) wobble_demo irregular_demo by simp
qed

subsection \<open>Performance score\<close>

lemma score_total_le_100: "sum_components (score_components s) \<le> 100"
  by (simp add: sum_components_def score_components_def Let_def)

lemma grade_monotone: "t1 \<le> t2 \<Longrightarrow> grade_rank (grade_of t1) \<le> grade_rank (grade_of t2)"
  by (simp add: grade_of_def grade_rank_def)

lemma score_nonneg:
  assumes "0 \<le> confidence_avg s"
    and "\<And>v. vibrato_analysis s = Some v \<Longrightarrow> vs_detected v \<Longrightarrow> 0 \<le> vs_consistency v"
  shows "0 \<le> pitch_accuracy (score_components s)"
    "0 \<le> technique_variety (score_components s)"
    "0 \<le> vibrato_quality (score_components s)"
    "0 \<le> dynamics_control (score_components s)"
    "0 \<le> breath_support (score_components s)"
    "0 \<le> passaggio_handling (score_components s)"
  using assms by (auto simp add: score_components_def Let_def split: option.splits)

text \<open>
  C4: the score of a session with mean confidence 0.8, one technique, one dynamic change,
  breath support score 85, no passaggio, and a detected vibrato with average rate 10.5 Hz,
  average depth 100 cents and consistency -1. The vibrato component is -5: the consistency
  term is added without the lower clamp that the rate, depth and breath terms have.
\<close>

theorem score_vibrato_negative:
  "vibrato_quality (breakdown (calculate_performance_score
     \<lparr>confidence_avg = 0.8, variety_score = Some 1,
      vibrato_analysis = Some \<lparr>vs_detected = True, average_rate = 10.5,
                                average_depth = 100, vs_consistency = -1\<rparr>,
      dynamic_variety = Some 1, breath_support_score = Some 85,
      detected_transitions = Some 0\<rparr>)) = -5"
  by (simp add: calculate_performance_score_def score_components_def Let_def get_default_def)

subsection \<open>Pitch fusion\<close>

lemma sum_list_gt:
  fixes c :: real
  assumes "xs \<noteq> []" "\<forall>x \<in> set xs. c < x"
  shows "c * real (length xs) < sum_list xs"
  using assms
proof (induction xs)
  case Nil then show ?case by simp
next
  case (Cons a xs)
  show ?case
  proof (cases "xs = []")
    case True then show ?thesis using Cons.prems by simp
  next
    case False
    then have "c * real (length xs) < sum_list xs" using Cons by simp
    moreover have "c < a" using Cons.prems by simp
    ultimately show ?thesis by (simp add: algebra_simps)
  qed
qed

lemma np_mean_gt:
  assumes "xs \<noteq> []" "\<forall>x \<in> set xs. c < x"
  shows "c < np_mean xs"
proof -
  have "0 < real (length xs)" using assms(1) by simp
  then show ?thesis
    using sum_list_gt [OF assms] by (simp add: np_mean_def pos_less_divide_eq)
qed

lemma valid_confidences_gt:
  "\<forall>x \<in> set (map (\<lambda>i. cs ! i) (filter (\<lambda>i. cs ! i > m) [0 ..< length cs])). m < x"
  by simp

lemma crepe_confidence_above:
  assumes "analyze_with_crepe r = Some e"
  shows "min_confidence < confidence e"
  using assms np_mean_gt [OF _ valid_confidences_gt, of "confidences b" min_confidence for b]
  by (auto simp add: analyze_with_crepe_def crepe_try_def Let_def
      split: engine_reply.splits option.splits if_splits sum.splits)

lemma spice_confidence_above:
  assumes "analyze_with_spice r = Some e"
  shows "min_confidence < confidence e"
  using assms np_mean_gt [OF _ valid_confidences_gt, of "confidences b" min_confidence for b]
  by (auto simp add: analyze_with_spice_def spice_try_def Let_def
      split: engine_reply.splits option.splits if_splits sum.splits)

lemma analyze_chunk_labels:
  assumes "audio_chunk \<noteq> []"
  shows "\<exists>s'. analyze_chunk s audio_chunk t r1 r2 = Inr s' \<and>
           labels s' = labels s @
             (case create_combined_label
                     (s\<lparr>amplitude_history := amplitude_history s @
                        [\<lparr>ap_time = t, ap_amplitude = Max (set (map abs audio_chunk)),
                          ap_rms = sqrt (np_mean (map (\<lambda>x. x\<^sup>2) audio_chunk))\<rparr>]\<rparr>)
                     (analyze_with_crepe r1) (analyze_with_spice r2) t
                     (Max (set (map abs audio_chunk))) of
                None \<Rightarrow> [] | Some l \<Rightarrow> [l])"
  using assms by (simp add: analyze_chunk_def Let_def split: option.splits)

lemma combined_both:
  "\<exists>l. create_combined_label s (Some e1) (Some e2) t a = Some l
     \<and> l_frequency l = (frequency e1 * confidence e1 + frequency e2 * confidence e2)
                         / (confidence e1 + confidence e2)
     \<and> l_confidence l = (confidence e1 + confidence e2) / 2
     \<and> l_source l = ''CREPE+SPICE''
     \<and> l_note l = freq_to_note (l_frequency l)"
  by (simp add: create_combined_label_def)

text \<open>
  C1: for every frame (a non-empty chunk) for which both engines return an estimate, each
  estimate has a confidence above the threshold \<open>min_confidence\<close>, the frame gets exactly
  one label, its frequency is (f1*c1 + f2*c2)/(c1 + c2) and its confidence is (c1 + c2)/2.
  Floats are read as exact reals, so the equalities are exact.
\<close>

theorem fusion_law:
  assumes "analyze_with_crepe r1 = Some e1" and "analyze_with_spice r2 = Some e2"
    and "audio_chunk \<noteq> []"
  shows "\<exists>s' l. analyze_chunk s audio_chunk t r1 r2 = Inr s'
           \<and> labels s' = labels s @ [l]
           \<and> l_frequency l = (frequency e1 * confidence e1 + frequency e2 * confidence e2)
                               / (confidence e1 + confidence e2)
           \<and> l_confidence l = (confidence e1 + confidence e2) / 2
           \<and> min_confidence < confidence e1 \<and> min_confidence < confidence e2"
proof -
  obtain s' where s': "analyze_chunk s audio_chunk t r1 r2 = Inr s'"
    and l: "labels s' = labels s @
             (case create_combined_label
                     (s\<lparr>amplitude_history := amplitude_history s @
                        [\<lparr>ap_time = t, ap_amplitude = Max (set (map abs audio_chunk)),
                          ap_rms = sqrt (np_mean (map (\<lambda>x. x\<^sup>2) audio_chunk))\<rparr>]\<rparr>)
                     (analyze_with_crepe r1) (analyze_with_spice r2) t
                     (Max (set (map abs audio_chunk))) of
                None \<Rightarrow> [] | Some l \<Rightarrow> [l])"
    using analyze_chunk_labels [OF assms(3)] by blast
  from combined_both obtain lb where
    "create_combined_label
        (s\<lparr>amplitude_history := amplitude_history s @
            [\<lparr>ap_time = t, ap_amplitude = Max (set (map abs audio_chunk)),
              ap_rms = sqrt (np_mean (map (\<lambda>x. x\<^sup>2) audio_chunk))\<rparr>]\<rparr>)
        (Some e1) (Some e2) t (Max (set (map abs audio_chunk))) = Some lb"
    and "l_frequency lb = (frequency e1 * confidence e1 + frequency e2 * confidence e2)
                         / (confidence e1 + confidence e2)"
    and "l_confidence lb = (confidence e1 + confidence e2) / 2"
    by blast
  then show ?thesis
    using s' l assms(1,2) crepe_confidence_above [OF assms(1)] spice_confidence_above [OF assms(2)]
    by simp
qed

subsection \<open>Note names\<close>

lemma floor_12log2:
  fixes x :: real
  assumes "0 < x" and "2 ^ a \<le> x ^ 12 * 2 ^ b" and "x ^ 12 * 2 ^ b < 2 ^ Suc a"
  shows "\<lfloor>12 * log 2 x\<rfloor> = int a - int b"
proof -
  let ?y = "x ^ 12 * 2 ^ b"
  have ypos: "0 < ?y" using assms(1) by simp
  have "log 2 ?y = log 2 (x ^ 12) + log 2 (2 ^ b)"
    using assms(1) by (simp add: log_mult)
  also have "\<dots> = 12 * log 2 x + real b"
    using assms(1) by (simp add: log_nat_power)
  finally have ly: "log 2 ?y = 12 * log 2 x + real b" .
  have "2 powr real a \<le> ?y" using assms(2) by (simp add: powr_realpow)
  then have lo: "real a \<le> log 2 ?y" using ypos by (simp add: le_log_iff)
  have "?y < 2 powr real (Suc a)" using assms(3) powr_realpow [of 2 "Suc a"] by simp
  then have hi: "log 2 ?y < real (Suc a)" using ypos by (simp add: log_less_iff)
  show ?thesis
  proof (rule floor_unique)
    show "of_int (int a - int b) \<le> 12 * log 2 x" using lo ly by simp
    show "12 * log 2 x < of_int (int a - int b) + 1" using hi ly by simp
  qed
qed

lemma freq_to_note_floor:
  assumes "0 < freq"
  shows "freq_to_note freq =
           note_names ! nat ((\<lfloor>12 * log 2 (freq / 440)\<rfloor> + 57) mod 12)
           @ show_int ((\<lfloor>12 * log 2 (freq / 440)\<rfloor> + 57) div 12)"
proof -
  let ?h = "12 * log 2 (freq / 440) + 57"
  have fl: "\<lfloor>?h\<rfloor> = \<lfloor>12 * log 2 (freq / 440)\<rfloor> + 57" by linarith
  have oct: "\<lfloor>?h / 12\<rfloor> = \<lfloor>?h\<rfloor> div 12"
    using floor_divide_real_eq_div [of 12 ?h] by simp
  have "\<lfloor>?h - 12 * of_int (\<lfloor>?h\<rfloor> div 12)\<rfloor> = \<lfloor>?h\<rfloor> - 12 * (\<lfloor>?h\<rfloor> div 12)"
    by linarith
  also have "\<dots> = \<lfloor>?h\<rfloor> mod 12" by (simp add: minus_mult_div_eq_mod)
  finally have idx: "\<lfloor>?h - 12 * of_int (\<lfloor>?h\<rfloor> div 12)\<rfloor> = \<lfloor>?h\<rfloor> mod 12" .
  from assms have "\<not> freq \<le> 0" by simp
  then have "freq_to_note freq =
      note_names ! nat \<lfloor>?h - 12 * of_int \<lfloor>?h / 12\<rfloor>\<rfloor> @ show_int \<lfloor>?h / 12\<rfloor>"
    unfolding freq_to_note_def Let_def by (rule if_not_P)
  also have "\<dots> = note_names ! nat (\<lfloor>?h\<rfloor> mod 12) @ show_int (\<lfloor>?h\<rfloor> div 12)"
    by (simp only: idx oct)
  finally show ?thesis by (simp only: fl)
qed

lemma note_7464_17: "freq_to_note (7464 / 17) = ''G#4''"
proof -
  have "\<lfloor>12 * log 2 ((7464 / 17) / 440 :: real)\<rfloor> = int 0 - int 1"
    by (rule floor_12log2) (simp_all add: power_divide)
  then show ?thesis
    by (simp add: freq_to_note_floor note_names_def show_int_def show_nat.simps)
qed

lemma note_196: "freq_to_note 196 = ''G3''"
proof -
  have "\<lfloor>12 * log 2 (196 / 440 :: real)\<rfloor> = int 0 - int 14"
    by (rule floor_12log2) (simp_all add: power_divide)
  then show ?thesis
    by (simp add: freq_to_note_floor note_names_def show_int_def show_nat.simps)
qed

lemma note_440: "freq_to_note 440 = ''A4''"
  by (simp add: freq_to_note_def Let_def note_names_def show_int_def show_nat.simps)

subsection \<open>Breath positions\<close>

lemma analyze_chunk_step:
  assumes "audio_chunk \<noteq> []"
  shows "\<exists>s'. analyze_chunk s audio_chunk t r1 r2 = Inr s'
      \<and> map ap_amplitude (amplitude_history s') =
          map ap_amplitude (amplitude_history s) @ [peak audio_chunk]
      \<and> breath_positions s' = breath_positions s @
          (if peak audio_chunk < 0.01 \<and> length (amplitude_history s) \<ge> 5
              \<and> list_all (\<lambda>amp. amp < 0.02)
                   (last_n 5 (map ap_amplitude (amplitude_history s) @ [peak audio_chunk]))
           then [t] else [])"
  using assms
  by (auto simp add: analyze_chunk_def Let_def peak_def last_n_def drop_map split: option.splits)

lemma listen_loop_snoc:
  assumes "k + length fs < duration"
  shows "listen_loop duration k (fs @ [(c, r1, r2)]) s =
           (case listen_loop duration k fs s of
              Inl e \<Rightarrow> Inl e
            | Inr s' \<Rightarrow> analyze_chunk s' c (real (k + length fs)) r1 r2)"
  using assms
proof (induction fs arbitrary: k s)
  case Nil
  then show ?case by (simp split: sum.splits)
next
  case (Cons f fs)
  obtain c' a b where f: "f = (c', a, b)" by (cases f)
  have "Suc k + length fs < duration" using Cons.prems by simp
  from Cons.IH [OF this] show ?case
    using Cons.prems by (simp add: f split: sum.splits)
qed

lemma last5_window:
  assumes "4 \<le> n" and "length L = Suc n"
  shows "list_all P (last_n 5 L) = list_all (\<lambda>j. P (L ! (n - j))) [0 ..< 5]"
proof -
  have d: "last_n 5 L = drop (n - 4) L" using assms by (simp add: last_n_def)
  have len: "length (drop (n - 4) L) = 5" using assms by simp
  have "list_all P (drop (n - 4) L) = (\<forall>m<5. P (L ! (n - 4 + m)))"
    using assms by (simp add: list_all_length)
  also have "\<dots> = (\<forall>j<5. P (L ! (n - j)))"
  proof
    assume h: "\<forall>m<5. P (L ! (n - 4 + m))"
    show "\<forall>j<5. P (L ! (n - j))"
    proof (intro allI impI)
      fix j :: nat assume "j < 5"
      then have "4 - j < 5" "n - 4 + (4 - j) = n - j" using assms(1) by auto
      then show "P (L ! (n - j))" using h by metis
    qed
  next
    assume h: "\<forall>j<5. P (L ! (n - j))"
    show "\<forall>m<5. P (L ! (n - 4 + m))"
    proof (intro allI impI)
      fix m :: nat assume "m < 5"
      then have "4 - m < 5" "n - (4 - m) = n - 4 + m" using assms(1) by auto
      then show "P (L ! (n - 4 + m))" using h by metis
    qed
  qed
  also have "\<dots> = list_all (\<lambda>j. P (L ! (n - j))) [0 ..< 5]"
    by (auto simp add: list_all_iff)
  finally show ?thesis by (simp add: d)
qed

lemma breath_at_prefix:
  assumes "i < length A"
  shows "breath_at (A @ [a]) i = breath_at A i"
proof -
  have "\<And>j. (A @ [a]) ! (i - j) = A ! (i - j)"
  proof -
    fix j
    have "i - j < length A" using assms by simp
    then show "(A @ [a]) ! (i - j) = A ! (i - j)" by (simp add: nth_append)
  qed
  moreover have "(A @ [a]) ! i = A ! i" using assms by (simp add: nth_append)
  ultimately show ?thesis by (simp add: breath_at_def)
qed

lemma breath_at_last:
  "breath_at (A @ [a]) (length A) =
     (a < 0.01 \<and> 5 \<le> length A \<and> list_all (\<lambda>amp. amp < 0.02) (last_n 5 (A @ [a])))"
proof (cases "5 \<le> length A")
  case True
  then have "list_all (\<lambda>amp. amp < 0.02) (last_n 5 (A @ [a]))
           = list_all (\<lambda>j. (A @ [a]) ! (length A - j) < 0.02) [0 ..< 5]"
    by (intro last5_window) simp_all
  then show ?thesis by (simp add: breath_at_def)
next
  case False
  then show ?thesis by (simp add: breath_at_def)
qed

lemma listen_loop_invariant:
  assumes "\<forall>f \<in> set frames. fst f \<noteq> []" and "length frames \<le> duration"
  shows "\<exists>s'. listen_loop duration 0 frames new_listener = Inr s'
           \<and> map ap_amplitude (amplitude_history s') = map (\<lambda>f. peak (fst f)) frames
           \<and> breath_positions s' =
               map real (filter (breath_at (map (\<lambda>f. peak (fst f)) frames)) [0 ..< length frames])"
  using assms
proof (induction frames rule: rev_induct)
  case Nil
  then show ?case by (simp add: new_listener_def)
next
  case (snoc f fs)
  obtain c r1 r2 where f: "f = (c, r1, r2)" by (cases f)
  let ?A = "map (\<lambda>f. peak (fst f)) fs"
  from snoc obtain s1 where s1: "listen_loop duration 0 fs new_listener = Inr s1"
    and h1: "map ap_amplitude (amplitude_history s1) = ?A"
    and b1: "breath_positions s1 = map real (filter (breath_at ?A) [0 ..< length fs])"
    by auto
  have c: "c \<noteq> []" using snoc.prems(1) f by simp
  have len: "length (amplitude_history s1) = length fs"
    using h1 by (metis length_map)
  from analyze_chunk_step [OF c, of s1 "real (length fs)" r1 r2]
  obtain s2 where s2: "analyze_chunk s1 c (real (length fs)) r1 r2 = Inr s2"
    and h2: "map ap_amplitude (amplitude_history s2) = ?A @ [peak c]"
    and b2: "breath_positions s2 = breath_positions s1 @
          (if peak c < 0.01 \<and> length fs \<ge> 5
              \<and> list_all (\<lambda>amp. amp < 0.02) (last_n 5 (?A @ [peak c]))
           then [real (length fs)] else [])"
    using h1 len by auto
  have run: "listen_loop duration 0 (fs @ [f]) new_listener = Inr s2"
    using listen_loop_snoc [of 0 fs duration c r1 r2 new_listener] snoc.prems(2) s1 s2
    by (simp add: f)
  have pre: "filter (breath_at (?A @ [peak c])) [0 ..< length fs] = filter (breath_at ?A) [0 ..< length fs]"
    by (rule filter_cong) (simp_all add: breath_at_prefix)
  have lastc: "breath_at (?A @ [peak c]) (length fs) =
       (peak c < 0.01 \<and> 5 \<le> length fs \<and> list_all (\<lambda>amp. amp < 0.02) (last_n 5 (?A @ [peak c])))"
    using breath_at_last [of ?A "peak c"] by simp
  have "breath_positions s2 =
      map real (filter (breath_at (map (\<lambda>f. peak (fst f)) (fs @ [f]))) [0 ..< length (fs @ [f])])"
    using b2 b1 pre lastc by (simp add: f)
  then show ?case using run h2 by (simp add: f)
qed

subsection \<open>Fusion scenarios, engine failure and the breath scenario\<close>

lemma crepe_single:
  "0.6 < c \<Longrightarrow> analyze_with_crepe (Reply 200 (Some \<lparr>pitches = [f], confidences = [c], body_notes = []\<rparr>))
     = Some \<lparr>frequency = f, confidence = c, est_notes = [], source = ''CREPE''\<rparr>"
  by (simp add: analyze_with_crepe_def crepe_try_def pick_def min_confidence_def np_mean_def)

lemma spice_single:
  "0.6 < c \<Longrightarrow> analyze_with_spice (Reply 200 (Some \<lparr>pitches = [f], confidences = [c], body_notes = []\<rparr>))
     = Some \<lparr>frequency = f, confidence = c, est_notes = [], source = ''SPICE''\<rparr>"
  by (simp add: analyze_with_spice_def spice_try_def pick_def min_confidence_def np_mean_def)

theorem fusion_law_witness:
  "analyze_with_crepe (Reply 200 (Some \<lparr>pitches = [440], confidences = [0.9], body_notes = []\<rparr>))
     = Some \<lparr>frequency = 440, confidence = 0.9, est_notes = [], source = ''CREPE''\<rparr>
   \<and> analyze_with_spice (Reply 200 (Some \<lparr>pitches = [438], confidences = [0.8], body_notes = []\<rparr>))
     = Some \<lparr>frequency = 438, confidence = 0.8, est_notes = [], source = ''SPICE''\<rparr>
   \<and> (\<exists>s' l. analyze_chunk new_listener [0.5] 0
                 (Reply 200 (Some \<lparr>pitches = [440], confidences = [0.9], body_notes = []\<rparr>))
                 (Reply 200 (Some \<lparr>pitches = [438], confidences = [0.8], body_notes = []\<rparr>)) = Inr s'
          \<and> labels s' = [l] \<and> l_frequency l = 7464 / 17 \<and> l_confidence l = 17 / 20)"
proof -
  have c: "analyze_with_crepe (Reply 200 (Some \<lparr>pitches = [440], confidences = [0.9], body_notes = []\<rparr>))
     = Some \<lparr>frequency = 440, confidence = 0.9, est_notes = [], source = ''CREPE''\<rparr>"
    by (rule crepe_single) simp
  have p: "analyze_with_spice (Reply 200 (Some \<lparr>pitches = [438], confidences = [0.8], body_notes = []\<rparr>))
     = Some \<lparr>frequency = 438, confidence = 0.8, est_notes = [], source = ''SPICE''\<rparr>"
    by (rule spice_single) simp
  have n: "[0.5 :: real] \<noteq> []" by simp
  show ?thesis
    using fusion_law [OF c p n, of new_listener 0] c p
    by (auto simp add: new_listener_def)
qed

text \<open>
  C2: the combined label for the reports (440.0 Hz, 0.9) from CREPE and (438.0 Hz, 0.8) from
  SPICE. The fused frequency is 7464/17 = 439.0588... Hz, within 0.01 of 439.05, but the
  note name \<open>freq_to_note\<close> gives is "G#4": it takes the floor of the semitone count
  instead of the nearest semitone, so a pitch just below A4 is named a semitone low.
\<close>

theorem fused_note_is_gsharp4:
  "map_option (\<lambda>l. (l_frequency l, l_note l))
     (create_combined_label new_listener
        (Some \<lparr>frequency = 440, confidence = 0.9, est_notes = [], source = ''CREPE''\<rparr>)
        (Some \<lparr>frequency = 438, confidence = 0.8, est_notes = [], source = ''SPICE''\<rparr>)
        0 0.5)
   = Some (7464 / 17, ''G#4'')
   \<and> \<bar>7464 / 17 - 439.05\<bar> < (0.01 :: real)"
  by (simp add: create_combined_label_def note_7464_17)

lemma analyze_chunk_total:
  assumes "audio_chunk \<noteq> []"
  shows "\<exists>s'. analyze_chunk s audio_chunk t r1 r2 = Inr s'"
  using analyze_chunk_labels [OF assms] by blast

lemma combined_crepe_only:
  "\<exists>l. create_combined_label s (Some e) None t a = Some l
     \<and> l_frequency l = frequency e \<and> l_confidence l = confidence e
     \<and> l_note l = freq_to_note (frequency e) \<and> l_source l = ''CREPE''"
  by (simp add: create_combined_label_def)

lemma combined_spice_only:
  "\<exists>l. create_combined_label s None (Some e) t a = Some l
     \<and> l_frequency l = frequency e \<and> l_confidence l = confidence e
     \<and> l_note l = freq_to_note (frequency e) \<and> l_source l = ''SPICE''"
  by (simp add: create_combined_label_def)

lemma crepe_raise_absent: "crepe_try r = Inl err \<Longrightarrow> analyze_with_crepe r = None"
  by (simp add: analyze_with_crepe_def)

lemma spice_raise_absent: "spice_try r = Inl err \<Longrightarrow> analyze_with_spice r = None"
  by (simp add: analyze_with_spice_def)

lemma crepe_failure_absent:
  "analyze_with_crepe Raised = None"
  "status \<noteq> 200 \<Longrightarrow> analyze_with_crepe (Reply status body) = None"
  "analyze_with_crepe (Reply 200 None) = None"
  by (simp_all add: analyze_with_crepe_def crepe_try_def)

lemma spice_failure_absent:
  "analyze_with_spice Raised = None"
  "status \<noteq> 200 \<Longrightarrow> analyze_with_spice (Reply status body) = None"
  "analyze_with_spice (Reply 200 None) = None"
  by (simp_all add: analyze_with_spice_def spice_try_def)


text \<open>
  C8: an engine that fails is absent: a raised exception (a timeout, a refused connection),
  a status code other than 200 (the servers answer 500 on an error), a body that is not
  JSON and any other exception inside the \<open>try\<close> block all give \<open>None\<close>, and the analysis
  of a frame returns a state whatever the two replies are (no exception propagates). When
  one engine is absent for any reason (these failures, or a reply with no estimate above the
  threshold) and the other returns an estimate, which is then above the threshold, the
  frame gets exactly one label, and that label carries the surviving estimate's frequency
  and confidence unchanged, with the note name of that frequency; for 196.0 Hz the note
  name is "G3".
\<close>

theorem engine_failure_degrades:
  assumes "audio_chunk \<noteq> []"
    and "(analyze_with_crepe r1 = None \<and> analyze_with_spice r2 = Some e)
         \<or> (analyze_with_spice r2 = None \<and> analyze_with_crepe r1 = Some e)"
  shows "(\<exists>s' l. analyze_chunk s audio_chunk t r1 r2 = Inr s'
           \<and> labels s' = labels s @ [l]
           \<and> l_frequency l = frequency e \<and> l_confidence l = confidence e
           \<and> l_note l = freq_to_note (frequency e))
       \<and> min_confidence < confidence e
       \<and> freq_to_note 196 = ''G3''
       \<and> analyze_with_crepe Raised = None \<and> analyze_with_spice Raised = None
       \<and> (\<forall>status body. status \<noteq> 200 \<longrightarrow>
             analyze_with_crepe (Reply status body) = None
             \<and> analyze_with_spice (Reply status body) = None)
       \<and> analyze_with_crepe (Reply 200 None) = None
       \<and> analyze_with_spice (Reply 200 None) = None
       \<and> (\<forall>r err. crepe_try r = Inl err \<longrightarrow> analyze_with_crepe r = None)
       \<and> (\<forall>r err. spice_try r = Inl err \<longrightarrow> analyze_with_spice r = None)
       \<and> (\<forall>q1 q2. \<exists>s''. analyze_chunk s audio_chunk t q1 q2 = Inr s'')"
proof -
  let ?s1 = "s\<lparr>amplitude_history := amplitude_history s @
                [\<lparr>ap_time = t, ap_amplitude = Max (set (map abs audio_chunk)),
                  ap_rms = sqrt (np_mean (map (\<lambda>x. x\<^sup>2) audio_chunk))\<rparr>]\<rparr>"
  let ?a = "Max (set (map abs audio_chunk))"
  obtain s' where s': "analyze_chunk s audio_chunk t r1 r2 = Inr s'"
    and l: "labels s' = labels s @
             (case create_combined_label ?s1 (analyze_with_crepe r1) (analyze_with_spice r2) t ?a of
                None \<Rightarrow> [] | Some l \<Rightarrow> [l])"
    using analyze_chunk_labels [OF assms(1)] by blast
  from assms(2)
  have pass: "\<exists>s' l. analyze_chunk s audio_chunk t r1 r2 = Inr s'
           \<and> labels s' = labels s @ [l]
           \<and> l_frequency l = frequency e \<and> l_confidence l = confidence e
           \<and> l_note l = freq_to_note (frequency e)"
  proof
    assume h: "analyze_with_crepe r1 = None \<and> analyze_with_spice r2 = Some e"
    obtain lb where "create_combined_label ?s1 None (Some e) t ?a = Some lb"
      and "l_frequency lb = frequency e" and "l_confidence lb = confidence e"
      and "l_note lb = freq_to_note (frequency e)"
      using combined_spice_only by blast
    then show ?thesis using s' l h by simp
  next
    assume h: "analyze_with_spice r2 = None \<and> analyze_with_crepe r1 = Some e"
    obtain lb where "create_combined_label ?s1 (Some e) None t ?a = Some lb"
      and "l_frequency lb = frequency e" and "l_confidence lb = confidence e"
      and "l_note lb = freq_to_note (frequency e)"
      using combined_crepe_only by blast
    then show ?thesis using s' l h by simp
  qed
  have above: "min_confidence < confidence e"
    using assms(2) crepe_confidence_above [of r1 e] spice_confidence_above [of r2 e] by blast
  have tot: "\<forall>q1 q2. \<exists>s''. analyze_chunk s audio_chunk t q1 q2 = Inr s''"
    using analyze_chunk_total [OF assms(1)] by blast
  have exc: "\<forall>r err. crepe_try r = Inl err \<longrightarrow> analyze_with_crepe r = None"
    "\<forall>r err. spice_try r = Inl err \<longrightarrow> analyze_with_spice r = None"
    by (simp_all add: crepe_raise_absent spice_raise_absent)
  show ?thesis
    using pass above tot exc note_196 crepe_failure_absent spice_failure_absent by blast
qed

theorem engine_failure_degrades_witness:
  "analyze_with_spice (Reply 500 None) = None
   \<and> analyze_with_crepe (Reply 200 (Some \<lparr>pitches = [196], confidences = [0.85], body_notes = []\<rparr>))
       = Some \<lparr>frequency = 196, confidence = 0.85, est_notes = [], source = ''CREPE''\<rparr>
   \<and> (\<exists>s' l. analyze_chunk new_listener [0.5] 0
                 (Reply 200 (Some \<lparr>pitches = [196], confidences = [0.85], body_notes = []\<rparr>))
                 (Reply 500 None) = Inr s'
          \<and> labels s' = [l] \<and> l_frequency l = 196 \<and> l_confidence l = 0.85 \<and> l_note l = ''G3'')"
proof -
  have n: "[0.5 :: real] \<noteq> []" by simp
  have r: "analyze_with_spice (Reply 500 None) = None"
    by (simp add: analyze_with_spice_def spice_try_def)
  have c: "analyze_with_crepe (Reply 200 (Some \<lparr>pitches = [196], confidences = [0.85], body_notes = []\<rparr>))
       = Some \<lparr>frequency = 196, confidence = 0.85, est_notes = [], source = ''CREPE''\<rparr>"
    by (rule crepe_single) simp
  have "(analyze_with_crepe (Reply 200 (Some \<lparr>pitches = [196], confidences = [0.85], body_notes = []\<rparr>))
           = None
         \<and> analyze_with_spice (Reply 500 None)
           = Some \<lparr>frequency = 196, confidence = 0.85, est_notes = [], source = ''CREPE''\<rparr>)
      \<or> (analyze_with_spice (Reply 500 None) = None
         \<and> analyze_with_crepe (Reply 200 (Some \<lparr>pitches = [196], confidences = [0.85], body_notes = []\<rparr>))
           = Some \<lparr>frequency = 196, confidence = 0.85, est_notes = [], source = ''CREPE''\<rparr>)"
    using r c by simp
  from engine_failure_degrades [OF n this, of new_listener 0]
  have "\<exists>s' l. analyze_chunk new_listener [0.5] 0
                 (Reply 200 (Some \<lparr>pitches = [196], confidences = [0.85], body_notes = []\<rparr>))
                 (Reply 500 None) = Inr s'
           \<and> labels s' = labels new_listener @ [l]
           \<and> l_frequency l = frequency \<lparr>frequency = 196, confidence = 0.85, est_notes = [], source = ''CREPE''\<rparr>
           \<and> l_confidence l = confidence \<lparr>frequency = 196, confidence = 0.85, est_notes = [], source = ''CREPE''\<rparr>
           \<and> l_note l = freq_to_note (frequency \<lparr>frequency = 196, confidence = 0.85, est_notes = [], source = ''CREPE''\<rparr>)"
    and g: "freq_to_note 196 = ''G3''"
    by blast+
  then show ?thesis
    using r c by (auto simp add: new_listener_def)
qed

text \<open>
  C3, as stated, on the sequence [0.5, 0.4, 0.01, 0.01, 0.01, 0.01, 0.01] fed frame by
  frame: no breath position is recorded at all (0.01 is not below 0.01). With 0.009 in place
  of 0.01 the only position recorded is 6, the frame at which the test first succeeds, not
  index 2.
\<close>

theorem breath_scenario_counterexample:
  "(case listen_loop 7 0
           [([0.5], Raised, Raised), ([0.4], Raised, Raised), ([0.01], Raised, Raised),
            ([0.01], Raised, Raised), ([0.01], Raised, Raised), ([0.01], Raised, Raised),
            ([0.01], Raised, Raised)] new_listener of
      Inl e \<Rightarrow> None | Inr s \<Rightarrow> Some (breath_positions s)) = Some []
   \<and> (case listen_loop 7 0
           [([0.5], Raised, Raised), ([0.4], Raised, Raised), ([0.009], Raised, Raised),
            ([0.009], Raised, Raised), ([0.009], Raised, Raised), ([0.009], Raised, Raised),
            ([0.009], Raised, Raised)] new_listener of
      Inl e \<Rightarrow> None | Inr s \<Rightarrow> Some (breath_positions s)) = Some [6]"
  by (simp add: analyze_chunk_def Let_def new_listener_def analyze_with_crepe_def
      analyze_with_spice_def crepe_try_def spice_try_def create_combined_label_def last_n_def)

text \<open>
  C3 (amended): after a session of frames with peak amplitudes \<open>amps\<close>, the breath
  positions are exactly the frame indices i with amps[i] < 0.01, i >= 5 (more than five
  amplitudes recorded so far) and amps[i-4..i] all below 0.02, in order; the position
  recorded is i itself. The two thresholds are constants, not fractions of a mean.
\<close>

theorem breath_positions_characterisation:
  assumes "\<forall>f \<in> set frames. fst f \<noteq> []" and "length frames \<le> duration"
  shows "\<exists>s'. listen_loop duration 0 frames new_listener = Inr s'
           \<and> breath_positions s' =
               map real (filter (breath_at (map (\<lambda>f. peak (fst f)) frames)) [0 ..< length frames])"
  using listen_loop_invariant [OF assms] by blast

theorem breath_positions_characterisation_witness:
  "\<exists>s'. listen_loop 7 0
           [([0.5], Raised, Raised), ([0.4], Raised, Raised), ([0.009], Raised, Raised),
            ([0.009], Raised, Raised), ([0.009], Raised, Raised), ([0.009], Raised, Raised),
            ([0.009], Raised, Raised)] new_listener = Inr s'
       \<and> breath_positions s' = [6]"
proof -
  have a: "\<forall>f \<in> set [([0.5 :: real], Raised, Raised), ([0.4], Raised, Raised), ([0.009], Raised, Raised),
            ([0.009], Raised, Raised), ([0.009], Raised, Raised), ([0.009], Raised, Raised),
            ([0.009], Raised, Raised)]. fst f \<noteq> []" by simp
  have b: "length [([0.5 :: real], Raised, Raised), ([0.4], Raised, Raised), ([0.009], Raised, Raised),
            ([0.009], Raised, Raised), ([0.009], Raised, Raised), ([0.009], Raised, Raised),
            ([0.009], Raised, Raised)] \<le> 7" by simp
  have u: "[0 ..< 7] = [0, 1, 2, 3, 4, 5, 6 :: nat]" by (simp add: upt_rec)
  have v: "[0 ..< 5] = [0, 1, 2, 3, 4 :: nat]" by (simp add: upt_rec)
  from breath_positions_characterisation [OF a b] show ?thesis
    by (simp add: breath_at_def peak_def u v)
qed

subsection \<open>Vocal health, register and vowel\<close>

lemma hnr_bounds: "0 \<le> calculate_hnr audio_chunk \<and> calculate_hnr audio_chunk \<le> 25"
  by (simp add: calculate_hnr_def hnr_try_def Let_def split: sum.splits option.splits)

text \<open>
  C7: for every non-empty audio chunk and every pitch dictionary and formant profile, the
  value \<open>_calculate_hnr\<close> returns lies in [0,25], the assessment's vocal strain is
  max(0, 1 - HNR/15) (so it lies in [0,1]), and its breath efficiency is the pitch
  confidence times min(energy*10, 1), the energy being the mean of the squared samples.
\<close>

theorem vocal_health_postconditions:
  assumes "audio_chunk \<noteq> []"
  shows "0 \<le> calculate_hnr audio_chunk \<and> calculate_hnr audio_chunk \<le> 25
       \<and> vocal_strain (assess_vocal_health audio_chunk pd formants)
           = max 0 (1 - calculate_hnr audio_chunk / 15)
       \<and> breath_efficiency (assess_vocal_health audio_chunk pd formants)
           = get_default (pd_confidence pd) 0
             * min (np_mean (map (\<lambda>x. x\<^sup>2) audio_chunk) * 10) 1
       \<and> 0 \<le> vocal_strain (assess_vocal_health audio_chunk pd formants)
       \<and> vocal_strain (assess_vocal_health audio_chunk pd formants) \<le> 1"
  using hnr_bounds [of audio_chunk]
  by (simp add: assess_vocal_health_def Let_def)

lemma upt_1_2: "[1 ..< 2] = [1 :: nat]"
  by (simp add: upt_rec)

lemma hnr_demo: "calculate_hnr [1, 1] = 0"
proof -
  have a0: "autocorr [1, 1] 0 = 2" by (simp add: autocorr_def lessThan_Suc numeral_2_eq_2)
  have a1: "autocorr [1, 1] (Suc 0) = 1" by (simp add: autocorr_def lessThan_Suc numeral_2_eq_2)
  show ?thesis
    by (simp add: calculate_hnr_def hnr_try_def Let_def upt_1_2 a0 a1)
qed

theorem vocal_health_postconditions_witness:
  "[1, 1 :: real] \<noteq> []
   \<and> calculate_hnr [1, 1] = 0
   \<and> vocal_strain (assess_vocal_health [1, 1]
        \<lparr>pd_frequency = 220, pd_confidence = Some 0.9, pd_note = ''A'', pd_octave = 3,
         pd_cents_deviation = 0, pd_harmonic_clarity = 0\<rparr>
        \<lparr>f1 = 500, f2 = 1500, f3 = 2500, f4 = 3500, singers_formant = 0,
         formant_bandwidth = None\<rparr>) = 1
   \<and> breath_efficiency (assess_vocal_health [1, 1]
        \<lparr>pd_frequency = 220, pd_confidence = Some 0.9, pd_note = ''A'', pd_octave = 3,
         pd_cents_deviation = 0, pd_harmonic_clarity = 0\<rparr>
        \<lparr>f1 = 500, f2 = 1500, f3 = 2500, f4 = 3500, singers_formant = 0,
         formant_bandwidth = None\<rparr>) = 0.9"
proof -
  have n: "[1, 1 :: real] \<noteq> []" by simp
  from vocal_health_postconditions [OF n] show ?thesis
    by (simp add: hnr_demo get_default_def np_mean_def)
qed

lemma centroid_impulse: "calculate_spectral_centroid [1, 0] = 11025"
proof -
  have m0: "rfft_mag [1, 0] 0 = 1" by (simp add: rfft_mag_def lessThan_Suc numeral_2_eq_2)
  have m1: "rfft_mag [1, 0] (Suc 0) = 1" by (simp add: rfft_mag_def lessThan_Suc numeral_2_eq_2)
  have u: "[0 ..< 2] = [0, 1 :: nat]" by (simp add: upt_rec)
  show ?thesis
    by (simp add: calculate_spectral_centroid_def Let_def u m0 m1 rfftfreq_def)
qed

lemma centroid_silence: "calculate_spectral_centroid [0, 0] = 1000"
proof -
  have m0: "rfft_mag [0, 0] 0 = 0" by (simp add: rfft_mag_def lessThan_Suc numeral_2_eq_2)
  have m1: "rfft_mag [0, 0] (Suc 0) = 0" by (simp add: rfft_mag_def lessThan_Suc numeral_2_eq_2)
  have u: "[0 ..< 2] = [0, 1 :: nat]" by (simp add: upt_rec)
  show ?thesis
    by (simp add: calculate_spectral_centroid_def Let_def u m0 m1 rfftfreq_def)
qed

text \<open>
  C5, as stated, at frequency 800 Hz with the default formant profile: the same frequency
  and formant profile give HEAD with the chunk [1, 0] (spectral centroid 11025 Hz) and
  FALSETTO with the silent chunk [0, 0] (no spectrum, default centroid 1000 Hz).
\<close>

theorem register_depends_on_audio_counterexample:
  "classify_register_advanced 800
      \<lparr>f1 = 500, f2 = 1500, f3 = 2500, f4 = 3500, singers_formant = 0, formant_bandwidth = None\<rparr>
      [1, 0] = HEAD
   \<and> classify_register_advanced 800
      \<lparr>f1 = 500, f2 = 1500, f3 = 2500, f4 = 3500, singers_formant = 0, formant_bandwidth = None\<rparr>
      [0, 0] = FALSETTO"
  by (simp add: classify_register_advanced_def centroid_impulse centroid_silence)

lemma vowel_scan_cong:
  assumes "f1 p = f1 q" and "f2 p = f2 q"
  shows "vowel_scan p tbl acc = vowel_scan q tbl acc"
  using assms
proof (induction tbl arbitrary: acc)
  case Nil
  then show ?case by simp
next
  case (Cons e tbl)
  obtain v a b where e: "e = (v, a, b)" by (cases e)
  obtain m bv where acc: "acc = (m, bv)" by (cases acc)
  show ?case using Cons by (simp add: e acc Let_def)
qed

text \<open>
  C5 (amended): the register is a function of the frequency, the formant profile and the
  spectral centroid of the audio chunk: in the band [700, 1400) Hz it is HEAD when the
  centroid of the chunk is above 2000 Hz and FALSETTO otherwise, so that chunks with the
  same centroid give the same register; outside the band the chunk does not matter at all;
  and of the profile only f1, f2 and the singer's formant are read. The vowel shape is a
  function of f1 and f2 of the formant profile alone.
\<close>

theorem classification_dependencies:
  "(700 \<le> freq \<and> freq < 1400
      \<longrightarrow> classify_register_advanced freq p a
          = (if calculate_spectral_centroid a > 2000 then HEAD else FALSETTO))
   \<and> (calculate_spectral_centroid a = calculate_spectral_centroid b
      \<longrightarrow> classify_register_advanced freq p a = classify_register_advanced freq p b)
   \<and> (freq < 700 \<or> 1400 \<le> freq
      \<longrightarrow> classify_register_advanced freq p a = classify_register_advanced freq p b)
   \<and> (f1 p = f1 q \<and> f2 p = f2 q \<and> singers_formant p = singers_formant q
      \<longrightarrow> classify_register_advanced freq p a = classify_register_advanced freq q a)
   \<and> (f1 p = f1 q \<and> f2 p = f2 q \<longrightarrow> classify_vowel_shape p = classify_vowel_shape q)"
  using vowel_scan_cong [of p q vowel_formants "(None, SCHWA)"]
  by (auto simp add: classify_register_advanced_def classify_vowel_shape_def)

theorem classification_dependencies_witness:
  "classify_register_advanced 800
        \<lparr>f1 = 500, f2 = 1500, f3 = 2500, f4 = 3500, singers_formant = 0, formant_bandwidth = None\<rparr>
        [1, 0] = HEAD
   \<and> calculate_spectral_centroid [1, 0] = 11025
   \<and> classify_register_advanced 800
        \<lparr>f1 = 500, f2 = 1500, f3 = 2500, f4 = 3500, singers_formant = 0, formant_bandwidth = None\<rparr>
        [0, 0] = FALSETTO
   \<and> calculate_spectral_centroid [0, 0] = 1000
   \<and> calculate_spectral_centroid [0, 0] = calculate_spectral_centroid []
   \<and> classify_register_advanced 800
        \<lparr>f1 = 500, f2 = 1500, f3 = 2500, f4 = 3500, singers_formant = 0, formant_bandwidth = None\<rparr>
        [0, 0]
     = classify_register_advanced 800
        \<lparr>f1 = 500, f2 = 1500, f3 = 2500, f4 = 3500, singers_formant = 0, formant_bandwidth = None\<rparr>
        []
   \<and> classify_register_advanced 440
        \<lparr>f1 = 500, f2 = 1500, f3 = 2500, f4 = 3500, singers_formant = 0, formant_bandwidth = None\<rparr>
        [1, 0]
     = classify_register_advanced 440
        \<lparr>f1 = 500, f2 = 1500, f3 = 2500, f4 = 3500, singers_formant = 0, formant_bandwidth = None\<rparr>
        [0, 0]
   \<and> classify_vowel_shape
        \<lparr>f1 = 500, f2 = 1500, f3 = 2500, f4 = 3500, singers_formant = 0, formant_bandwidth = None\<rparr>
     = classify_vowel_shape
        \<lparr>f1 = 500, f2 = 1500, f3 = 2400, f4 = 3300, singers_formant = 0.5,
         formant_bandwidth = Some [50, 100, 150, 200]\<rparr>"
proof -
  have e: "calculate_spectral_centroid [] = 1000"
    by (simp add: calculate_spectral_centroid_def)
  have c: "calculate_spectral_centroid [0, 0] = calculate_spectral_centroid []"
    by (simp only: centroid_silence e)
  show ?thesis
    using c
      classification_dependencies [of 800 
        "\<lparr>f1 = 500, f2 = 1500, f3 = 2500, f4 = 3500, singers_formant = 0, formant_bandwidth = None\<rparr>"
        "[1, 0]" "[0, 0]"
        "\<lparr>f1 = 500, f2 = 1500, f3 = 2500, f4 = 3500, singers_formant = 0, formant_bandwidth = None\<rparr>"]
      classification_dependencies [of 800
        "\<lparr>f1 = 500, f2 = 1500, f3 = 2500, f4 = 3500, singers_formant = 0, formant_bandwidth = None\<rparr>"
        "[0, 0]" "[]"
        "\<lparr>f1 = 500, f2 = 1500, f3 = 2500, f4 = 3500, singers_formant = 0, formant_bandwidth = None\<rparr>"]
      classification_dependencies [of 440
        "\<lparr>f1 = 500, f2 = 1500, f3 = 2500, f4 = 3500, singers_formant = 0, formant_bandwidth = None\<rparr>"
        "[1, 0]" "[0, 0]"
        "\<lparr>f1 = 500, f2 = 1500, f3 = 2400, f4 = 3300, singers_formant = 0.5,
          formant_bandwidth = Some [50, 100, 150, 200]\<rparr>"]
    by (auto simp add: centroid_impulse centroid_silence)
qed

subsection \<open>Label database\<close>

lemma foldr_max_upper: "r \<in> set rs \<Longrightarrow> f r \<le> foldr max (map f rs) (s :: int)"
  by (induction rs) auto

lemma find_snoc_new:
  assumes "P x" and "\<forall>r \<in> set rs. \<not> P r"
  shows "find P (rs @ [x]) = Some x"
  using assms by (induction rs) auto

lemma map_of_dict_set:
  "map_of (dict_set d k v) k' = (if k' = k then map_option (\<lambda>_. v) (map_of d k) else map_of d k')"
  by (induction d) (auto simp add: dict_set_def)

lemma parse_json_field_other:
  assumes "parse_json_field loads k data = Inr d" and "k' \<noteq> k"
  shows "map_of d k' = map_of data k'"
  using assms
  by (auto simp add: parse_json_field_def map_of_dict_set
      split: option.splits if_splits pyval.splits)

lemma parse_json_field_text:
  assumes "map_of data k = Some (PStr s)" and "loads s = Some j"
  shows "\<exists>d. parse_json_field loads k data = Inr d
           \<and> map_of d k = Some (if s = [] then PStr s else j)"
  using assms by (simp add: parse_json_field_def map_of_dict_set)

lemma row_to_dict_other:
  assumes "row_to_dict loads row = Inr d" and "k' \<notin> set parsed_columns"
  shows "map_of d k' = map_of row k'"
proof -
  from assms(1) obtain d1 d2 d3 where
    p1: "parse_json_field loads ''pitch_data'' row = Inr d1" and
    p2: "parse_json_field loads ''note_sequence'' d1 = Inr d2" and
    p3: "parse_json_field loads ''vibrato_analysis'' d2 = Inr d3" and
    p4: "parse_json_field loads ''dynamics_data'' d3 = Inr d"
    by (auto simp add: row_to_dict_def and_then_def split: sum.splits)
  have ne: "k' \<noteq> ''pitch_data''" "k' \<noteq> ''note_sequence''" "k' \<noteq> ''vibrato_analysis''"
    "k' \<noteq> ''dynamics_data''"
    using assms(2) by (auto simp add: parsed_columns_def)
  show ?thesis
    using parse_json_field_other [OF p1 ne(1)] parse_json_field_other [OF p2 ne(2)]
      parse_json_field_other [OF p3 ne(3)] parse_json_field_other [OF p4 ne(4)]
    by simp
qed

lemma row_to_dict_parsed:
  assumes c1: "map_of row ''pitch_data'' = Some (PStr s1)" and l1: "loads s1 = Some j1"
    and c2: "map_of row ''note_sequence'' = Some (PStr s2)" and l2: "loads s2 = Some j2"
    and c3: "map_of row ''vibrato_analysis'' = Some (PStr s3)" and l3: "loads s3 = Some j3"
    and c4: "map_of row ''dynamics_data'' = Some (PStr s4)" and l4: "loads s4 = Some j4"
  shows "\<exists>d. row_to_dict loads row = Inr d
           \<and> map_of d ''pitch_data'' = Some (if s1 = [] then PStr s1 else j1)
           \<and> map_of d ''note_sequence'' = Some (if s2 = [] then PStr s2 else j2)
           \<and> map_of d ''vibrato_analysis'' = Some (if s3 = [] then PStr s3 else j3)
           \<and> map_of d ''dynamics_data'' = Some (if s4 = [] then PStr s4 else j4)"
proof -
  from parse_json_field_text [where loads = loads, OF c1 l1] obtain d1 where
    p1: "parse_json_field loads ''pitch_data'' row = Inr d1"
    and v1: "map_of d1 ''pitch_data'' = Some (if s1 = [] then PStr s1 else j1)" by blast
  have c2': "map_of d1 ''note_sequence'' = Some (PStr s2)"
    using parse_json_field_other [OF p1, of "''note_sequence''"] c2 by simp
  from parse_json_field_text [where loads = loads, OF c2' l2] obtain d2 where
    p2: "parse_json_field loads ''note_sequence'' d1 = Inr d2"
    and v2: "map_of d2 ''note_sequence'' = Some (if s2 = [] then PStr s2 else j2)" by blast
  have c3': "map_of d2 ''vibrato_analysis'' = Some (PStr s3)"
    using parse_json_field_other [OF p2, of "''vibrato_analysis''"]
      parse_json_field_other [OF p1, of "''vibrato_analysis''"] c3 by simp
  from parse_json_field_text [where loads = loads, OF c3' l3] obtain d3 where
    p3: "parse_json_field loads ''vibrato_analysis'' d2 = Inr d3"
    and v3: "map_of d3 ''vibrato_analysis'' = Some (if s3 = [] then PStr s3 else j3)" by blast
  have c4': "map_of d3 ''dynamics_data'' = Some (PStr s4)"
    using parse_json_field_other [OF p3, of "''dynamics_data''"]
      parse_json_field_other [OF p2, of "''dynamics_data''"]
      parse_json_field_other [OF p1, of "''dynamics_data''"] c4 by simp
  from parse_json_field_text [where loads = loads, OF c4' l4] obtain d4 where
    p4: "parse_json_field loads ''dynamics_data'' d3 = Inr d4"
    and v4: "map_of d4 ''dynamics_data'' = Some (if s4 = [] then PStr s4 else j4)" by blast
  have r: "row_to_dict loads row = Inr d4"
    using p1 p2 p3 p4 by (simp add: row_to_dict_def and_then_def)
  have "map_of d4 ''pitch_data'' = map_of d1 ''pitch_data''"
    using parse_json_field_other [OF p4, of "''pitch_data''"]
      parse_json_field_other [OF p3, of "''pitch_data''"]
      parse_json_field_other [OF p2, of "''pitch_data''"] by simp
  moreover have "map_of d4 ''note_sequence'' = map_of d2 ''note_sequence''"
    using parse_json_field_other [OF p4, of "''note_sequence''"]
      parse_json_field_other [OF p3, of "''note_sequence''"] by simp
  moreover have "map_of d4 ''vibrato_analysis'' = map_of d3 ''vibrato_analysis''"
    using parse_json_field_other [OF p4, of "''vibrato_analysis''"] by simp
  ultimately show ?thesis using r v1 v2 v3 v4 by simp
qed

lemma save_label_row:
  assumes "save_label conv dumps now db label_data = Inr (db', label_id)"
  shows "\<exists>row. rows db' = rows db @ [row]
      \<and> row_id row = label_id
      \<and> (\<forall>r \<in> set (rows db). row_id r \<noteq> label_id)
      \<and> map_of row ''detected_notes''
          = Some (apply_affinity conv INTEGER (adapt (dict_get label_data ''detected_notes'' (PInt 0))))
      \<and> map_of row ''average_pitch''
          = Some (apply_affinity conv REAL (adapt (dict_get label_data ''average_pitch'' (PInt 0))))
      \<and> map_of row ''main_technique''
          = Some (apply_affinity conv TEXT (adapt (dict_get label_data ''main_technique'' (PStr []))))
      \<and> map_of row ''confidence_avg''
          = Some (apply_affinity conv REAL (adapt (dict_get label_data ''confidence_avg'' (PInt 0))))
      \<and> list_all (\<lambda>k. map_of row k = Some (PStr (dumps (json_value label_data k))))
          (parsed_columns @ unparsed_columns)"
proof -
  have lt: "\<forall>r \<in> set (rows db). row_id r \<noteq> foldr max (map row_id (rows db)) (sequence db) + 1"
  proof
    fix r assume "r \<in> set (rows db)"
    from foldr_max_upper [OF this, of row_id "sequence db"]
    show "row_id r \<noteq> foldr max (map row_id (rows db)) (sequence db) + 1" by simp
  qed
  from assms show ?thesis
    using lt
    by (auto simp add: save_label_def Let_def store_cell_def row_id_def json_value_def
        parsed_columns_def unparsed_columns_def split: if_splits)
qed

lemma number_round_trip:
  assumes "is_number v" and "a \<noteq> TEXT"
  shows "py_eq (apply_affinity conv a (adapt v)) v"
  using assms by (cases v; cases a) (auto simp add: py_eq_def)

lemma text_round_trip:
  assumes "is_text v"
  shows "apply_affinity conv TEXT (adapt v) = v"
  using assms by (cases v) auto

lemma plain_text_round_trip:
  assumes "is_plain_text conv v"
  shows "apply_affinity conv a (adapt v) = v"
  using assms by (cases v; cases a) auto

lemma py_eq_text: "is_text v \<Longrightarrow> py_eq v v"
  by (cases v) (auto simp add: py_eq_def)

lemma get_label_saved:
  assumes "save_label conv dumps now db label_data = Inr (db', label_id)"
    and "list_all (\<lambda>k. loads (dumps (json_value label_data k)) = Some (J k)) parsed_columns"
  shows "\<exists>row d. rows db' = rows db @ [row] \<and> row_id row = label_id
      \<and> (\<forall>r \<in> set (rows db). row_id r \<noteq> label_id)
      \<and> row_to_dict loads row = Inr d
      \<and> get_label loads db' label_id = Inr (Some d)
      \<and> (\<forall>k. k \<notin> set parsed_columns \<longrightarrow> map_of d k = map_of row k)
      \<and> list_all (\<lambda>k. map_of d k = Some (if dumps (json_value label_data k) = []
                                          then PStr [] else J k)) parsed_columns
      \<and> map_of row ''detected_notes''
          = Some (apply_affinity conv INTEGER (adapt (dict_get label_data ''detected_notes'' (PInt 0))))
      \<and> map_of row ''average_pitch''
          = Some (apply_affinity conv REAL (adapt (dict_get label_data ''average_pitch'' (PInt 0))))
      \<and> map_of row ''main_technique''
          = Some (apply_affinity conv TEXT (adapt (dict_get label_data ''main_technique'' (PStr []))))
      \<and> map_of row ''confidence_avg''
          = Some (apply_affinity conv REAL (adapt (dict_get label_data ''confidence_avg'' (PInt 0))))
      \<and> list_all (\<lambda>k. map_of row k = Some (PStr (dumps (json_value label_data k)))) unparsed_columns"
proof -
  from save_label_row [OF assms(1)] obtain row where
    r: "rows db' = rows db @ [row]" and i: "row_id row = label_id"
    and old: "\<forall>r \<in> set (rows db). row_id r \<noteq> label_id"
    and dn: "map_of row ''detected_notes''
          = Some (apply_affinity conv INTEGER (adapt (dict_get label_data ''detected_notes'' (PInt 0))))"
    and ap: "map_of row ''average_pitch''
          = Some (apply_affinity conv REAL (adapt (dict_get label_data ''average_pitch'' (PInt 0))))"
    and mt: "map_of row ''main_technique''
          = Some (apply_affinity conv TEXT (adapt (dict_get label_data ''main_technique'' (PStr []))))"
    and ca: "map_of row ''confidence_avg''
          = Some (apply_affinity conv REAL (adapt (dict_get label_data ''confidence_avg'' (PInt 0))))"
    and js: "list_all (\<lambda>k. map_of row k = Some (PStr (dumps (json_value label_data k))))
          (parsed_columns @ unparsed_columns)"
    by blast
  have c: "map_of row ''pitch_data'' = Some (PStr (dumps (json_value label_data ''pitch_data'')))"
    "map_of row ''note_sequence'' = Some (PStr (dumps (json_value label_data ''note_sequence'')))"
    "map_of row ''vibrato_analysis'' = Some (PStr (dumps (json_value label_data ''vibrato_analysis'')))"
    "map_of row ''dynamics_data'' = Some (PStr (dumps (json_value label_data ''dynamics_data'')))"
    using js by (simp_all add: parsed_columns_def)
  have l: "loads (dumps (json_value label_data ''pitch_data'')) = Some (J ''pitch_data'')"
    "loads (dumps (json_value label_data ''note_sequence'')) = Some (J ''note_sequence'')"
    "loads (dumps (json_value label_data ''vibrato_analysis'')) = Some (J ''vibrato_analysis'')"
    "loads (dumps (json_value label_data ''dynamics_data'')) = Some (J ''dynamics_data'')"
    using assms(2) by (simp_all add: parsed_columns_def)
  from row_to_dict_parsed [where loads = loads, OF c(1) l(1) c(2) l(2) c(3) l(3) c(4) l(4)]
  obtain d where d: "row_to_dict loads row = Inr d"
    and p: "map_of d ''pitch_data'' = Some (if dumps (json_value label_data ''pitch_data'') = []
              then PStr (dumps (json_value label_data ''pitch_data'')) else J ''pitch_data'')"
      "map_of d ''note_sequence'' = Some (if dumps (json_value label_data ''note_sequence'') = []
              then PStr (dumps (json_value label_data ''note_sequence'')) else J ''note_sequence'')"
      "map_of d ''vibrato_analysis'' = Some (if dumps (json_value label_data ''vibrato_analysis'') = []
              then PStr (dumps (json_value label_data ''vibrato_analysis'')) else J ''vibrato_analysis'')"
      "map_of d ''dynamics_data'' = Some (if dumps (json_value label_data ''dynamics_data'') = []
              then PStr (dumps (json_value label_data ''dynamics_data'')) else J ''dynamics_data'')"
    by blast
  have f: "find (\<lambda>r. row_id r = label_id) (rows db') = Some row"
    unfolding r using i old by (intro find_snoc_new) auto
  have g: "get_label loads db' label_id = Inr (Some d)"
    by (simp add: get_label_def f d and_then_def)
  have o: "\<forall>k. k \<notin> set parsed_columns \<longrightarrow> map_of d k = map_of row k"
    using row_to_dict_other [OF d] by blast
  have pc: "list_all (\<lambda>k. map_of d k = Some (if dumps (json_value label_data k) = []
                                          then PStr [] else J k)) parsed_columns"
    using p by (simp add: parsed_columns_def)
  have u: "list_all (\<lambda>k. map_of row k = Some (PStr (dumps (json_value label_data k)))) unparsed_columns"
    using js by simp
  show ?thesis
    using r i old d g o pc dn ap mt ca u by blast
qed

text \<open>
  C9: a label dictionary whose summary fields have the types of a session summary
  (detected\_notes and confidence\_avg numbers, main\_technique a text, average\_pitch a
  number or a text that is not a numeric literal, such as a note name) is saved and
  reloaded by the returned id; \<open>json.loads\<close> does not fail on what \<open>json.dumps\<close> wrote.
  Then \<open>get_label\<close> returns a record, and its four scalar summary fields are equal, in
  Python's sense of \<open>==\<close>, to the values that were saved.
\<close>

theorem persistence_round_trip:
  assumes "save_label conv dumps now db label_data = Inr (db', label_id)"
    and "list_all (\<lambda>k. loads (dumps (json_value label_data k)) \<noteq> None) parsed_columns"
    and "is_number (dict_get label_data ''detected_notes'' (PInt 0))"
    and "is_number (dict_get label_data ''average_pitch'' (PInt 0))
         \<or> is_plain_text conv (dict_get label_data ''average_pitch'' (PInt 0))"
    and "is_text (dict_get label_data ''main_technique'' (PStr []))"
    and "is_number (dict_get label_data ''confidence_avg'' (PInt 0))"
  shows "\<exists>d. get_label loads db' label_id = Inr (Some d)
      \<and> py_eq (dict_get d ''detected_notes'' PNone) (dict_get label_data ''detected_notes'' (PInt 0))
      \<and> py_eq (dict_get d ''average_pitch'' PNone) (dict_get label_data ''average_pitch'' (PInt 0))
      \<and> py_eq (dict_get d ''main_technique'' PNone) (dict_get label_data ''main_technique'' (PStr []))
      \<and> py_eq (dict_get d ''confidence_avg'' PNone) (dict_get label_data ''confidence_avg'' (PInt 0))"
proof -
  have "list_all (\<lambda>k. loads (dumps (json_value label_data k))
          = Some (the (loads (dumps (json_value label_data k))))) parsed_columns"
    using assms(2) by (simp add: parsed_columns_def)
  from get_label_saved [OF assms(1), where loads = loads
      and J = "\<lambda>k. the (loads (dumps (json_value label_data k)))", OF this]
  obtain row d where g: "get_label loads db' label_id = Inr (Some d)"
    and o: "\<forall>k. k \<notin> set parsed_columns \<longrightarrow> map_of d k = map_of row k"
    and dn: "map_of row ''detected_notes''
          = Some (apply_affinity conv INTEGER (adapt (dict_get label_data ''detected_notes'' (PInt 0))))"
    and ap: "map_of row ''average_pitch''
          = Some (apply_affinity conv REAL (adapt (dict_get label_data ''average_pitch'' (PInt 0))))"
    and mt: "map_of row ''main_technique''
          = Some (apply_affinity conv TEXT (adapt (dict_get label_data ''main_technique'' (PStr []))))"
    and ca: "map_of row ''confidence_avg''
          = Some (apply_affinity conv REAL (adapt (dict_get label_data ''confidence_avg'' (PInt 0))))"
    by blast
  have k: "''detected_notes'' \<notin> set parsed_columns" "''average_pitch'' \<notin> set parsed_columns"
    "''main_technique'' \<notin> set parsed_columns" "''confidence_avg'' \<notin> set parsed_columns"
    by (simp_all add: parsed_columns_def)
  have e1: "py_eq (dict_get d ''detected_notes'' PNone) (dict_get label_data ''detected_notes'' (PInt 0))"
    using o k(1) dn number_round_trip [OF assms(3), of INTEGER conv]
    by (simp add: dict_get_def)
  have e2: "py_eq (dict_get d ''average_pitch'' PNone) (dict_get label_data ''average_pitch'' (PInt 0))"
  proof -
    from assms(4) have "py_eq (apply_affinity conv REAL (adapt (dict_get label_data ''average_pitch'' (PInt 0))))
        (dict_get label_data ''average_pitch'' (PInt 0))"
    proof
      assume n: "is_number (dict_get label_data ''average_pitch'' (PInt 0))"
      show ?thesis using number_round_trip [OF n, of REAL conv] by simp
    next
      assume t: "is_plain_text conv (dict_get label_data ''average_pitch'' (PInt 0))"
      then have "is_text (dict_get label_data ''average_pitch'' (PInt 0))"
        by (cases "dict_get label_data ''average_pitch'' (PInt 0)") auto
      then show ?thesis using plain_text_round_trip [OF t, of REAL] py_eq_text by simp
    qed
    then show ?thesis using o k(2) ap by (simp add: dict_get_def)
  qed
  have e3: "py_eq (dict_get d ''main_technique'' PNone) (dict_get label_data ''main_technique'' (PStr []))"
    using o k(3) mt text_round_trip [OF assms(5), of conv] py_eq_text [OF assms(5)]
    by (simp add: dict_get_def)
  have e4: "py_eq (dict_get d ''confidence_avg'' PNone) (dict_get label_data ''confidence_avg'' (PInt 0))"
    using o k(4) ca number_round_trip [OF assms(6), of REAL conv]
    by (simp add: dict_get_def)
  show ?thesis using g e1 e2 e3 e4 by blast
qed





theorem persistence_round_trip_witness:
  "\<exists>db' d. save_label \<lparr>text_to_num = (\<lambda>s. None), num_to_text = (\<lambda>v. [])\<rparr>
              (\<lambda>v. if v = PList [] then ''[]'' else ''{}'') 0 new_database
              [(''detected_notes'', PInt 24), (''average_pitch'', PStr ''A3''),
               (''main_technique'', PStr ''chest''), (''confidence_avg'', PFloat 0.85)]
            = Inr (db', 1)
        \<and> get_label (\<lambda>s. if s = ''[]'' then Some (PList []) else Some (PDict [])) db' 1
            = Inr (Some d)
        \<and> py_eq (dict_get d ''detected_notes'' PNone) (PInt 24)
        \<and> py_eq (dict_get d ''average_pitch'' PNone) (PStr ''A3'')
        \<and> py_eq (dict_get d ''main_technique'' PNone) (PStr ''chest'')
        \<and> py_eq (dict_get d ''confidence_avg'' PNone) (PFloat 0.85)"
proof -
  let ?conv = "\<lparr>text_to_num = (\<lambda>s. None), num_to_text = (\<lambda>v. [])\<rparr>"
  let ?dumps = "\<lambda>v. if v = PList [] then ''[]'' else ''{}''"
  let ?loads = "\<lambda>s. if s = ''[]'' then Some (PList []) else Some (PDict [])"
  let ?ld = "[(''detected_notes'', PInt 24), (''average_pitch'', PStr ''A3''),
               (''main_technique'', PStr ''chest''), (''confidence_avg'', PFloat 0.85)]"
  have "\<exists>db'. save_label ?conv ?dumps 0 new_database ?ld = Inr (db', 1)"
    by (simp add: save_label_def Let_def new_database_def dict_get_def)
  then obtain db' where s: "save_label ?conv ?dumps 0 new_database ?ld = Inr (db', 1)" by blast
  have h: "list_all (\<lambda>k. ?loads (?dumps (json_value ?ld k)) \<noteq> None) parsed_columns"
    by (simp add: parsed_columns_def)
  have t1: "is_number (dict_get ?ld ''detected_notes'' (PInt 0))" by (simp add: dict_get_def)
  have t2: "is_number (dict_get ?ld ''average_pitch'' (PInt 0))
         \<or> is_plain_text ?conv (dict_get ?ld ''average_pitch'' (PInt 0))" by (simp add: dict_get_def)
  have t3: "is_text (dict_get ?ld ''main_technique'' (PStr []))" by (simp add: dict_get_def)
  have t4: "is_number (dict_get ?ld ''confidence_avg'' (PInt 0))" by (simp add: dict_get_def)
  from persistence_round_trip [OF s, where loads = ?loads, OF h t1 t2 t3 t4]
  show ?thesis using s by (auto simp add: dict_get_def)
qed

end
